theory Spec2Isabelle
  imports Complex_Main
begin

section \<open>Responses, principals and JavaScript values\<close>

text \<open>
  Every controller method either answers through \<^verbatim>\<open>ApiResponse.success\<close> or
  \<^verbatim>\<open>ApiResponse.error\<close> (status code and message), or an exception reaches the
  \<^verbatim>\<open>catch\<close> block and is handed to \<^verbatim>\<open>next(error)\<close>. A method is modelled as
  a function from the request and the database to the response and the database it
  leaves behind; no method runs in a transaction, so a method that throws half way
  keeps the writes it already made.

  Status names and principal types are the string literals of the source. A value that
  may be \<^verbatim>\<open>null\<close> or \<^verbatim>\<open>undefined\<close> is an option. Timestamps are milliseconds
  (\<^verbatim>\<open>new Date()\<close> is the argument \<open>now\<close>); a \<^verbatim>\<open>Date\<close> object is truthy, so
  \<^verbatim>\<open>if (row.acceptedAt)\<close> tests for \<open>Some\<close>. Money columns of the load and of a
  negotiation are decimal columns, which the ORM returns as objects (truthy unless
  \<^verbatim>\<open>null\<close>); they hold exact decimals, rationals here. The settlement and invoice
  methods compute in JavaScript numbers, which are modelled below as IEEE 754 doubles.
  Database faults other than an \<^verbatim>\<open>update\<close> of a missing row are not modelled.
\<close>

datatype response =
    ApiSuccess nat string
  | ApiError nat string
  | NextError string

record user =
  user_id :: string
  user_type :: string

text \<open>\<^verbatim>\<open>a || b\<close> on an optional string: the empty string is falsy as well.\<close>

definition or_else :: "string option \<Rightarrow> string option \<Rightarrow> string option" where
  "or_else a b = (case a of None \<Rightarrow> b | Some s \<Rightarrow> if s = [] then b else Some s)"

text \<open>A template literal prints a missing value as \<^verbatim>\<open>undefined\<close>.\<close>

definition template_str :: "string option \<Rightarrow> string" where
  "template_str a = (case a of None \<Rightarrow> ''undefined'' | Some s \<Rightarrow> s)"

text \<open>
  \<^verbatim>\<open>prisma.x.update({ where, data })\<close> on a table held as a list of rows: the rows
  selected by \<open>P\<close> are rewritten by \<open>f\<close>; when no row is selected the call throws.
\<close>

definition update_rows :: "('a \<Rightarrow> bool) \<Rightarrow> ('a \<Rightarrow> 'a) \<Rightarrow> 'a list \<Rightarrow> 'a list" where
  "update_rows P f rows = map (\<lambda>r. if P r then f r else r) rows"

definition update_unique :: "('a \<Rightarrow> bool) \<Rightarrow> ('a \<Rightarrow> 'a) \<Rightarrow> 'a list \<Rightarrow> 'a list option" where
  "update_unique P f rows =
     (case find P rows of None \<Rightarrow> None | Some _ \<Rightarrow> Some (update_rows P f rows))"

definition record_not_found :: string where
  "record_not_found = ''Record to update not found.''"

text \<open>
  A field of a JSON request body that the code tells apart when it is missing
  (\<^verbatim>\<open>undefined\<close>, which the ORM skips in \<^verbatim>\<open>data\<close>) and when it is \<^verbatim>\<open>null\<close>.
\<close>

datatype 'a body_value = Absent | Null | Val 'a


text \<open>\<^verbatim>\<open>data: { column: v }\<close> on an optional column.\<close>

definition write_field :: "'a body_value \<Rightarrow> 'a option \<Rightarrow> 'a option" where
  "write_field v stored = (case v of Absent \<Rightarrow> stored | Null \<Rightarrow> None | Val x \<Rightarrow> Some x)"

text \<open>How a template literal prints the field.\<close>

definition print_field :: "string body_value \<Rightarrow> string" where
  "print_field v = (case v of Absent \<Rightarrow> ''undefined'' | Null \<Rightarrow> ''null'' | Val s \<Rightarrow> s)"

section \<open>JavaScript numbers\<close>

text \<open>
  A JavaScript number is an IEEE 754 binary64 value: a finite double, given by the
  rational it denotes, an infinity or \<^verbatim>\<open>NaN\<close>. Every arithmetic operation returns the
  exact result rounded to the nearest double, ties to the even significand
  (\<open>round64\<close>): 53 significant bits, exponents down to the subnormals of quantum
  \<open>2\<^sup>-\<^sup>1\<^sup>0\<^sup>7\<^sup>4\<close>, overflow to an infinity from \<open>2\<^sup>1\<^sup>0\<^sup>2\<^sup>4\<close> on. The sign of zero is not
  modelled.
\<close>

datatype js_number = Num rat | PosInf | NegInf | NaN

definition pow2 :: "int \<Rightarrow> rat" where
  "pow2 k = (if k \<ge> 0 then 2 ^ nat k else 1 / 2 ^ nat (- k))"

text \<open>The number of binary digits of a positive integer.\<close>

function bitlen :: "int \<Rightarrow> nat" where
  "bitlen n = (if n \<le> 0 then 0 else Suc (bitlen (n div 2)))"
  by pat_completeness auto
termination
  by (relation "measure nat") auto

declare bitlen.simps [simp del]

text \<open>For a positive rational \<open>a\<close>, the exponent \<open>e\<close> with \<open>2\<^sup>e \<le> a < 2\<^sup>e\<^sup>+\<^sup>1\<close>.\<close>

definition ilog2 :: "rat \<Rightarrow> int" where
  "ilog2 a = (if a \<ge> 1 then int (bitlen \<lfloor>a\<rfloor>) - 1
              else - int (bitlen (\<lceil>1 / a\<rceil> - 1)))"

definition round_half_even :: "rat \<Rightarrow> int" where
  "round_half_even m =
     (let f = \<lfloor>m\<rfloor>; d = m - of_int f
      in if d < 1 / 2 then f else if d > 1 / 2 then f + 1 else if even f then f else f + 1)"

definition round64 :: "rat \<Rightarrow> js_number" where
  "round64 x =
     (if x = 0 then Num 0
      else
        (let a = \<bar>x\<bar>;
             e = ilog2 a;
             q = max (e - 52) (- 1074);
             n = round_half_even (a / pow2 q)
         in if e \<ge> 1024 \<or> (e = 1023 \<and> n \<ge> 2 ^ 53) then (if x < 0 then NegInf else PosInf)
            else Num (if x < 0 then - (of_int n * pow2 q) else of_int n * pow2 q)))"

definition js_neg :: "js_number \<Rightarrow> js_number" where
  "js_neg a = (case a of Num x \<Rightarrow> Num (- x) | PosInf \<Rightarrow> NegInf | NegInf \<Rightarrow> PosInf | NaN \<Rightarrow> NaN)"

text \<open>The sign of a number other than \<^verbatim>\<open>NaN\<close>.\<close>

definition js_sign :: "js_number \<Rightarrow> int" where
  "js_sign a = (case a of Num x \<Rightarrow> (if x > 0 then 1 else if x < 0 then - 1 else 0)
                | PosInf \<Rightarrow> 1 | NegInf \<Rightarrow> - 1 | NaN \<Rightarrow> 0)"

definition js_add :: "js_number \<Rightarrow> js_number \<Rightarrow> js_number" where
  "js_add a b =
     (case (a, b) of
        (Num x, Num y) \<Rightarrow> round64 (x + y)
      | (NaN, _) \<Rightarrow> NaN
      | (_, NaN) \<Rightarrow> NaN
      | (PosInf, NegInf) \<Rightarrow> NaN
      | (NegInf, PosInf) \<Rightarrow> NaN
      | (PosInf, _) \<Rightarrow> PosInf
      | (_, PosInf) \<Rightarrow> PosInf
      | (NegInf, _) \<Rightarrow> NegInf
      | (_, NegInf) \<Rightarrow> NegInf)"

definition js_sub :: "js_number \<Rightarrow> js_number \<Rightarrow> js_number" where
  "js_sub a b = js_add a (js_neg b)"

definition js_signed_inf :: "int \<Rightarrow> js_number" where
  "js_signed_inf s = (if s = 0 then NaN else if s > 0 then PosInf else NegInf)"

definition js_mul :: "js_number \<Rightarrow> js_number \<Rightarrow> js_number" where
  "js_mul a b =
     (case (a, b) of
        (Num x, Num y) \<Rightarrow> round64 (x * y)
      | (NaN, _) \<Rightarrow> NaN
      | (_, NaN) \<Rightarrow> NaN
      | _ \<Rightarrow> js_signed_inf (js_sign a * js_sign b))"

definition js_div :: "js_number \<Rightarrow> js_number \<Rightarrow> js_number" where
  "js_div a b =
     (case (a, b) of
        (Num x, Num y) \<Rightarrow>
          if y = 0 then js_signed_inf (js_sign a) else round64 (x / y)
      | (NaN, _) \<Rightarrow> NaN
      | (_, NaN) \<Rightarrow> NaN
      | (Num x, _) \<Rightarrow> Num 0
      | (_, Num y) \<Rightarrow> js_signed_inf (js_sign a * (if y < 0 then - 1 else 1))
      | _ \<Rightarrow> NaN)"

definition js_less :: "js_number \<Rightarrow> js_number \<Rightarrow> bool" where
  "js_less a b =
     (case (a, b) of
        (Num x, Num y) \<Rightarrow> x < y
      | (NaN, _) \<Rightarrow> False
      | (_, NaN) \<Rightarrow> False
      | (NegInf, NegInf) \<Rightarrow> False
      | (NegInf, _) \<Rightarrow> True
      | (PosInf, _) \<Rightarrow> False
      | (_, PosInf) \<Rightarrow> True
      | (_, NegInf) \<Rightarrow> False)"


section \<open>The load lifecycle: data\<close>

record load =
  load_id :: string
  loadNumber :: string
  load_status :: string
  shipperClientId :: string
  shipperRate :: "rat option"
  driverPay :: "rat option"
  approvedNegotiationId :: "string option"
  pickupDate :: nat
  deliveryDate :: nat
  actualPickupTime :: "nat option"
  actualDeliveryTime :: "nat option"

record loadStatusHistory =
  hist_loadId :: string
  fromStatus :: string
  toStatus :: string
  changedById :: string
  changedByType :: string
  hist_notes :: "string option"

record loadStatusEvent =
  ev_loadId :: string
  ev_driverId :: "string option"
  ev_status :: string
  ev_notes :: "string option"

record loadNegotiation =
  neg_id :: string
  neg_loadId :: string
  proposedRate :: "rat option"
  counterRate :: "rat option"
  neg_notes :: "string option"
  initiatedBy :: string
  handledById :: "string option"
  neg_status :: string
  respondedAt :: "nat option"

record loadAssignment =
  asg_id :: string
  asg_loadId :: string
  asg_driverId :: string
  assignedById :: string
  asg_notes :: "string option"
  acceptedAt :: "nat option"
  rejectedAt :: "nat option"
  rejectionReason :: "string option"

record driver =
  driver_id :: string
  firstName :: string
  lastName :: string
  drv_isActive :: bool
  isAvailable :: bool

record podDocument =
  pod_id :: string
  pod_loadId :: string
  pod_driverId :: string
  signatureImage :: string
  pod_notes :: "string option"
  verifiedAt :: "nat option"
  verifiedById :: "string option"

record podPhoto =
  photo_podDocumentId :: string
  photoUrl :: string
  photoOrder :: nat

record fileUpload =
  uploadedById :: string
  uploadedByType :: string
  fileUrl :: string
  category :: string
  relatedEntityId :: string

record load_db =
  loads :: "load list"
  history :: "loadStatusHistory list"
  statusEvents :: "loadStatusEvent list"
  negotiations :: "loadNegotiation list"
  assignments :: "loadAssignment list"
  drivers :: "driver list"
  podDocuments :: "podDocument list"
  podPhotos :: "podPhoto list"
  fileUploads :: "fileUpload list"

definition find_load :: "string \<Rightarrow> load_db \<Rightarrow> load option" where
  "find_load i db = find (\<lambda>l. load_id l = i) (loads db)"

text \<open>\<^verbatim>\<open>prisma.load.update({ where: { id }, data })\<close>.\<close>

definition update_load :: "string \<Rightarrow> (load \<Rightarrow> load) \<Rightarrow> load_db \<Rightarrow> load_db option" where
  "update_load i f db =
     map_option (\<lambda>ls. db\<lparr>loads := ls\<rparr>) (update_unique (\<lambda>l. load_id l = i) f (loads db))"

text \<open>\<^verbatim>\<open>prisma.loadStatusHistory.create\<close>.\<close>

definition add_history ::
  "string \<Rightarrow> string \<Rightarrow> string \<Rightarrow> string \<Rightarrow> string \<Rightarrow> string option \<Rightarrow> load_db \<Rightarrow> load_db" where
  "add_history lid from to by_id by_type notes db =
     db\<lparr>history := history db @
       [\<lparr>hist_loadId = lid, fromStatus = from, toStatus = to, changedById = by_id,
         changedByType = by_type, hist_notes = notes\<rparr>]\<rparr>"

section \<open>The load lifecycle: operations of loads.controller.js\<close>

definition submitLoad :: "user \<Rightarrow> string \<Rightarrow> load_db \<Rightarrow> response \<times> load_db" where
  "submitLoad u i db =
     (case find_load i db of
        None \<Rightarrow> (ApiError 404 ''Load not found'', db)
      | Some l \<Rightarrow>
          if load_status l \<noteq> ''DRAFT''
          then (ApiError 400 ''Load can only be submitted from DRAFT status'', db)
          else
            (case update_load i (\<lambda>r. r\<lparr>load_status := ''PENDING_REVIEW''\<rparr>) db of
               None \<Rightarrow> (NextError record_not_found, db)
             | Some db1 \<Rightarrow>
                 (ApiSuccess 200 ''Load submitted for review'',
                  add_history i ''DRAFT'' ''PENDING_REVIEW'' (user_id u) (user_type u)
                    (Some ''Load submitted for review'') db1)))"

definition approveLoad ::
  "user \<Rightarrow> string \<Rightarrow> rat body_value \<Rightarrow> string option \<Rightarrow> load_db \<Rightarrow> response \<times> load_db" where
  "approveLoad u i pay notes db =
     (case find_load i db of
        None \<Rightarrow> (ApiError 404 ''Load not found'', db)
      | Some l \<Rightarrow>
          if load_status l \<noteq> ''RATE_APPROVED''
          then (ApiError 400 ''Load must have approved rate first'', db)
          else
            (case update_load i
                    (\<lambda>r. r\<lparr>load_status := ''SCHEDULED'',
                           driverPay := write_field pay (driverPay r)\<rparr>) db of
               None \<Rightarrow> (NextError record_not_found, db)
             | Some db1 \<Rightarrow>
                 (ApiSuccess 200 ''Load approved successfully'',
                  add_history i ''RATE_APPROVED'' ''SCHEDULED'' (user_id u) (user_type u)
                    (or_else notes (Some ''Load approved and scheduled'')) db1)))"

definition assignLoad ::
  "user \<Rightarrow> string \<Rightarrow> string \<Rightarrow> string \<Rightarrow> string option \<Rightarrow> load_db \<Rightarrow> response \<times> load_db" where
  "assignLoad u new_id i driverId notes db =
     (case find_load i db of
        None \<Rightarrow> (ApiError 404 ''Load not found'', db)
      | Some l \<Rightarrow>
          if load_status l \<noteq> ''SCHEDULED''
          then (ApiError 400 ''Load must be scheduled before assignment'', db)
          else
            (case find (\<lambda>d. driver_id d = driverId) (drivers db) of
               None \<Rightarrow> (ApiError 404 ''Driver not found'', db)
             | Some d \<Rightarrow>
                 if \<not> drv_isActive d \<or> \<not> isAvailable d
                 then (ApiError 400 ''Driver is not available'', db)
                 else
                   (let db1 = db\<lparr>assignments := assignments db @
                          [\<lparr>asg_id = new_id, asg_loadId = i, asg_driverId = driverId,
                            assignedById = user_id u, asg_notes = notes, acceptedAt = None,
                            rejectedAt = None, rejectionReason = None\<rparr>]\<rparr>
                    in case update_load i (\<lambda>r. r\<lparr>load_status := ''ASSIGNED''\<rparr>) db1 of
                         None \<Rightarrow> (NextError record_not_found, db1)
                       | Some db2 \<Rightarrow>
                           (ApiSuccess 200 ''Load assigned successfully'',
                            add_history i ''SCHEDULED'' ''ASSIGNED'' (user_id u) (user_type u)
                              (Some (''Load assigned to driver '' @ firstName d @ '' '' @ lastName d))
                              db2))))"

text \<open>The table of \<^verbatim>\<open>updateLoadStatus\<close>, an object literal keyed by the current status.\<close>

definition allowedTransitions :: "(string \<times> string list) list" where
  "allowedTransitions =
     [(''ACCEPTED'', [''EN_ROUTE_PICKUP'']),
      (''EN_ROUTE_PICKUP'', [''AT_PICKUP'']),
      (''AT_PICKUP'', [''LOADED'']),
      (''LOADED'', [''EN_ROUTE_DELIVERY'']),
      (''EN_ROUTE_DELIVERY'', [''AT_DELIVERY'']),
      (''AT_DELIVERY'', [''DELIVERED''])]"

text \<open>
  \<^verbatim>\<open>allowedTransitions[load.status] && !allowedTransitions[load.status].includes(status)\<close>:
  a status with no entry in the table makes the conjunction falsy.
\<close>

definition transition_refused :: "string \<Rightarrow> string \<Rightarrow> bool" where
  "transition_refused cur target =
     (case map_of allowedTransitions cur of
        None \<Rightarrow> False
      | Some ts \<Rightarrow> target \<notin> set ts)"

definition updateData :: "nat \<Rightarrow> string \<Rightarrow> load \<Rightarrow> load" where
  "updateData now status r =
     (if status = ''LOADED'' then r\<lparr>load_status := status, actualPickupTime := Some now\<rparr>
      else if status = ''DELIVERED'' then r\<lparr>load_status := status, actualDeliveryTime := Some now\<rparr>
      else r\<lparr>load_status := status\<rparr>)"

definition updateLoadStatus ::
  "user \<Rightarrow> nat \<Rightarrow> string \<Rightarrow> string \<Rightarrow> string option \<Rightarrow> load_db \<Rightarrow> response \<times> load_db" where
  "updateLoadStatus u now i status notes db =
     (case find_load i db of
        None \<Rightarrow> (ApiError 404 ''Load not found'', db)
      | Some l \<Rightarrow>
          if transition_refused (load_status l) status
          then (ApiError 400
                  (''Invalid status transition from '' @ load_status l @ '' to '' @ status), db)
          else
            (case update_load i (updateData now status) db of
               None \<Rightarrow> (NextError record_not_found, db)
             | Some db1 \<Rightarrow>
                 (let db2 = db1\<lparr>statusEvents := statusEvents db1 @
                        [\<lparr>ev_loadId = i,
                          ev_driverId = (if user_type u = ''DRIVER'' then Some (user_id u) else None),
                          ev_status = status, ev_notes = notes\<rparr>]\<rparr>
                  in (ApiSuccess 200 ''Load status updated'',
                      add_history i (load_status l) status (user_id u) (user_type u) notes db2))))"

text \<open>A request number is truthy unless it is missing or zero.\<close>

definition truthy_num :: "rat option \<Rightarrow> bool" where
  "truthy_num c = (case c of None \<Rightarrow> False | Some x \<Rightarrow> x \<noteq> 0)"

definition createNegotiation ::
  "user \<Rightarrow> string \<Rightarrow> string \<Rightarrow> rat option \<Rightarrow> rat option \<Rightarrow> string option \<Rightarrow> load_db
     \<Rightarrow> response \<times> load_db" where
  "createNegotiation u new_id i proposed counter notes db =
     (case find_load i db of
        None \<Rightarrow> (ApiError 404 ''Load not found'', db)
      | Some l \<Rightarrow>
          (let db1 = db\<lparr>negotiations := negotiations db @
                 [\<lparr>neg_id = new_id, neg_loadId = i, proposedRate = proposed, counterRate = counter,
                   neg_notes = notes,
                   initiatedBy = (if user_type u = ''INTERNAL_USER'' then ''DISPATCHER'' else ''SHIPPER''),
                   handledById = (if user_type u = ''INTERNAL_USER'' then Some (user_id u) else None),
                   neg_status = (if truthy_num counter then ''COUNTER_OFFERED'' else ''PENDING''),
                   respondedAt = None\<rparr>]\<rparr>
           in if load_status l = ''PENDING_REVIEW''
              then (case update_load i (\<lambda>r. r\<lparr>load_status := ''NEGOTIATING''\<rparr>) db1 of
                      None \<Rightarrow> (NextError record_not_found, db1)
                    | Some db2 \<Rightarrow> (ApiSuccess 201 ''Negotiation created'', db2))
              else (ApiSuccess 201 ''Negotiation created'', db1)))"

definition find_negotiation :: "string \<Rightarrow> load_db \<Rightarrow> loadNegotiation option" where
  "find_negotiation n db = find (\<lambda>g. neg_id g = n) (negotiations db)"

definition update_negotiation ::
  "string \<Rightarrow> (loadNegotiation \<Rightarrow> loadNegotiation) \<Rightarrow> load_db \<Rightarrow> load_db option" where
  "update_negotiation n f db =
     map_option (\<lambda>gs. db\<lparr>negotiations := gs\<rparr>)
       (update_unique (\<lambda>g. neg_id g = n) f (negotiations db))"

text \<open>
  \<^verbatim>\<open>negotiation.counterRate || negotiation.proposedRate\<close> on the stored row: the
  counter-rate unless it is \<^verbatim>\<open>null\<close>.
\<close>

definition agreedRate :: "loadNegotiation \<Rightarrow> rat option" where
  "agreedRate g = (case counterRate g of Some c \<Rightarrow> Some c | None \<Rightarrow> proposedRate g)"

definition acceptNegotiation :: "nat \<Rightarrow> string \<Rightarrow> load_db \<Rightarrow> response \<times> load_db" where
  "acceptNegotiation now n db =
     (case find_negotiation n db of
        None \<Rightarrow> (ApiError 404 ''Negotiation not found'', db)
      | Some g \<Rightarrow>
          if neg_status g \<noteq> ''PENDING'' \<and> neg_status g \<noteq> ''COUNTER_OFFERED''
          then (ApiError 400 ''Negotiation already resolved'', db)
          else
            (case update_negotiation n
                    (\<lambda>r. r\<lparr>neg_status := ''ACCEPTED'', respondedAt := Some now\<rparr>) db of
               None \<Rightarrow> (NextError record_not_found, db)
             | Some db1 \<Rightarrow>
                 (case update_load (neg_loadId g)
                         (\<lambda>r. r\<lparr>load_status := ''RATE_APPROVED'', shipperRate := agreedRate g,
                                approvedNegotiationId := Some n\<rparr>) db1 of
                    None \<Rightarrow> (NextError record_not_found, db1)
                  | Some db2 \<Rightarrow> (ApiSuccess 200 ''Negotiation accepted'', db2))))"

definition rejectNegotiation ::
  "nat \<Rightarrow> string \<Rightarrow> string option \<Rightarrow> load_db \<Rightarrow> response \<times> load_db" where
  "rejectNegotiation now n notes db =
     (case find_negotiation n db of
        None \<Rightarrow> (ApiError 404 ''Negotiation not found'', db)
      | Some g \<Rightarrow>
          (case update_negotiation n
                  (\<lambda>r. r\<lparr>neg_status := ''REJECTED'', respondedAt := Some now,
                         neg_notes := or_else notes (neg_notes g)\<rparr>) db of
             None \<Rightarrow> (NextError record_not_found, db)
           | Some db1 \<Rightarrow> (ApiSuccess 200 ''Negotiation rejected'', db1)))"

section \<open>The load lifecycle: assignment operations of drivers.controller.js\<close>

definition find_assignment :: "string \<Rightarrow> load_db \<Rightarrow> loadAssignment option" where
  "find_assignment a db = find (\<lambda>r. asg_id r = a) (assignments db)"

definition update_assignment ::
  "string \<Rightarrow> (loadAssignment \<Rightarrow> loadAssignment) \<Rightarrow> load_db \<Rightarrow> load_db option" where
  "update_assignment a f db =
     map_option (\<lambda>rs. db\<lparr>assignments := rs\<rparr>)
       (update_unique (\<lambda>r. asg_id r = a) f (assignments db))"

definition acceptAssignment :: "user \<Rightarrow> nat \<Rightarrow> string \<Rightarrow> load_db \<Rightarrow> response \<times> load_db" where
  "acceptAssignment u now a db =
     (case find_assignment a db of
        None \<Rightarrow> (ApiError 404 ''Assignment not found'', db)
      | Some asg \<Rightarrow>
          if asg_driverId asg \<noteq> user_id u then (ApiError 403 ''Not your assignment'', db)
          else if acceptedAt asg \<noteq> None then (ApiError 400 ''Assignment already accepted'', db)
          else
            (case update_assignment a (\<lambda>r. r\<lparr>acceptedAt := Some now\<rparr>) db of
               None \<Rightarrow> (NextError record_not_found, db)
             | Some db1 \<Rightarrow>
                 (case update_load (asg_loadId asg) (\<lambda>r. r\<lparr>load_status := ''ACCEPTED''\<rparr>) db1 of
                    None \<Rightarrow> (NextError record_not_found, db1)
                  | Some db2 \<Rightarrow>
                      (ApiSuccess 200 ''Assignment accepted'',
                       add_history (asg_loadId asg) ''ASSIGNED'' ''ACCEPTED'' (user_id u) ''DRIVER''
                         (Some ''Driver accepted assignment'') db2))))"

definition rejectAssignment ::
  "user \<Rightarrow> nat \<Rightarrow> string \<Rightarrow> string body_value \<Rightarrow> load_db \<Rightarrow> response \<times> load_db" where
  "rejectAssignment u now a reason db =
     (case find_assignment a db of
        None \<Rightarrow> (ApiError 404 ''Assignment not found'', db)
      | Some asg \<Rightarrow>
          if asg_driverId asg \<noteq> user_id u then (ApiError 403 ''Not your assignment'', db)
          else if rejectedAt asg \<noteq> None then (ApiError 400 ''Assignment already rejected'', db)
          else
            (case update_assignment a
                    (\<lambda>r. r\<lparr>rejectedAt := Some now,
                           rejectionReason := write_field reason (rejectionReason r)\<rparr>) db of
               None \<Rightarrow> (NextError record_not_found, db)
             | Some db1 \<Rightarrow>
                 (case update_load (asg_loadId asg) (\<lambda>r. r\<lparr>load_status := ''SCHEDULED''\<rparr>) db1 of
                    None \<Rightarrow> (NextError record_not_found, db1)
                  | Some db2 \<Rightarrow>
                      (ApiSuccess 200 ''Assignment rejected'',
                       add_history (asg_loadId asg) ''ASSIGNED'' ''SCHEDULED'' (user_id u) ''DRIVER''
                         (Some (''Driver rejected assignment: '' @ print_field reason)) db2))))"

section \<open>Proof of delivery: pod.controller.js and the checks of storage.service.js\<close>

text \<open>
  An uploaded file as the upload middleware hands it over. The stored name is a fresh
  UUID; \<open>stored_url\<close> is the URL the storage service returns for the file.
\<close>

record upload_file =
  mimetype :: string
  file_size :: nat
  stored_url :: string

definition maxFileSize :: nat where
  "maxFileSize = 10485760"

definition validateImageFile :: "upload_file \<Rightarrow> string option" where
  "validateImageFile f =
     (if mimetype f \<notin> set [''image/jpeg'', ''image/png'', ''image/jpg'', ''image/webp'']
      then Some ''Invalid file type. Allowed types: image/jpeg, image/png, image/jpg, image/webp''
      else None)"

text \<open>\<^verbatim>\<open>storageService.upload\<close> in local mode: the error it throws, or the URL.\<close>

definition upload :: "upload_file \<Rightarrow> string + string" where
  "upload f =
     (if file_size f > maxFileSize
      then Inl ''Local upload failed: File size exceeds maximum allowed size of 10485760 bytes''
      else Inr (stored_url f))"

definition add_fileUpload :: "user \<Rightarrow> string \<Rightarrow> string \<Rightarrow> string \<Rightarrow> load_db \<Rightarrow> load_db" where
  "add_fileUpload u url cat lid db =
     db\<lparr>fileUploads := fileUploads db @
       [\<lparr>uploadedById = user_id u, uploadedByType = ''DRIVER'', fileUrl = url, category = cat,
         relatedEntityId = lid\<rparr>]\<rparr>"

text \<open>The photo loop of \<^verbatim>\<open>submitPOD\<close>, from index \<open>k\<close>: the exception that ends it, if any.\<close>

fun upload_photos ::
  "user \<Rightarrow> string \<Rightarrow> string \<Rightarrow> nat \<Rightarrow> upload_file list \<Rightarrow> load_db \<Rightarrow> string option \<times> load_db" where
  "upload_photos u lid pid k [] db = (None, db)"
| "upload_photos u lid pid k (photo # rest) db =
     (case validateImageFile photo of
        Some e \<Rightarrow> (Some e, db)
      | None \<Rightarrow>
          (case upload photo of
             Inl e \<Rightarrow> (Some e, db)
           | Inr url \<Rightarrow>
               (let db1 = add_fileUpload u url ''POD_PHOTO'' lid db;
                    db2 = db1\<lparr>podPhotos := podPhotos db1 @
                            [\<lparr>photo_podDocumentId = pid, photoUrl = url, photoOrder = k\<rparr>]\<rparr>
                in upload_photos u lid pid (Suc k) rest db2)))"

definition submitPOD ::
  "user \<Rightarrow> string \<Rightarrow> string \<Rightarrow> string option \<Rightarrow> upload_file option \<Rightarrow> upload_file list \<Rightarrow> load_db
     \<Rightarrow> response \<times> load_db" where
  "submitPOD u new_id loadId notes signature photos db =
     (case find_load loadId db of
        None \<Rightarrow> (ApiError 404 ''Load not found'', db)
      | Some l \<Rightarrow>
          if filter (\<lambda>a. asg_loadId a = loadId \<and> asg_driverId a = user_id u) (assignments db) = []
          then (ApiError 403 ''You are not assigned to this load'', db)
          else if load_status l \<noteq> ''DELIVERED'' \<and> load_status l \<noteq> ''AT_DELIVERY''
          then (ApiError 400 ''Load must be delivered before submitting POD'', db)
          else
            (case signature of
               None \<Rightarrow> (ApiError 400 ''Signature image is required'', db)
             | Some sig \<Rightarrow>
                 (case validateImageFile sig of
                    Some e \<Rightarrow> (NextError e, db)
                  | None \<Rightarrow>
                      (case upload sig of
                         Inl e \<Rightarrow> (NextError e, db)
                       | Inr url \<Rightarrow>
                           (let db1 = add_fileUpload u url ''POD_SIGNATURE'' loadId db;
                                db2 = db1\<lparr>podDocuments := podDocuments db1 @
                                        [\<lparr>pod_id = new_id, pod_loadId = loadId,
                                          pod_driverId = user_id u, signatureImage = url,
                                          pod_notes = notes, verifiedAt = None,
                                          verifiedById = None\<rparr>]\<rparr>
                            in case upload_photos u loadId new_id 0 photos db2 of
                                 (Some e, db3) \<Rightarrow> (NextError e, db3)
                               | (None, db3) \<Rightarrow>
                                   (case update_load loadId
                                           (\<lambda>r. r\<lparr>load_status := ''POD_SUBMITTED''\<rparr>) db3 of
                                      None \<Rightarrow> (NextError record_not_found, db3)
                                    | Some db4 \<Rightarrow>
                                        (ApiSuccess 201 ''POD submitted successfully'',
                                         add_history loadId (load_status l) ''POD_SUBMITTED''
                                           (user_id u) ''DRIVER''
                                           (Some ''POD submitted by driver'') db4)))))))"

definition find_pod :: "string \<Rightarrow> load_db \<Rightarrow> podDocument option" where
  "find_pod p db = find (\<lambda>d. pod_id d = p) (podDocuments db)"

definition update_pod :: "string \<Rightarrow> (podDocument \<Rightarrow> podDocument) \<Rightarrow> load_db \<Rightarrow> load_db option" where
  "update_pod p f db =
     map_option (\<lambda>ds. db\<lparr>podDocuments := ds\<rparr>)
       (update_unique (\<lambda>d. pod_id d = p) f (podDocuments db))"

text \<open>
  \<^verbatim>\<open>include: { load: true }\<close> reads the load with the POD document; the history row
  written later takes its \<^verbatim>\<open>fromStatus\<close> from that copy.
\<close>

definition verifyPOD ::
  "user \<Rightarrow> nat \<Rightarrow> string \<Rightarrow> bool \<Rightarrow> string option \<Rightarrow> load_db \<Rightarrow> response \<times> load_db" where
  "verifyPOD u now p approved notes db =
     (case find_pod p db of
        None \<Rightarrow> (ApiError 404 ''POD not found'', db)
      | Some pod \<Rightarrow>
          if verifiedAt pod \<noteq> None then (ApiError 400 ''POD already verified'', db)
          else
            (case update_pod p
                    (\<lambda>d. d\<lparr>verifiedAt := Some now, verifiedById := Some (user_id u),
                           pod_notes := or_else notes (pod_notes pod)\<rparr>) db of
               None \<Rightarrow> (NextError record_not_found, db)
             | Some db1 \<Rightarrow>
                 (let target = (if approved then ''COMPLETED'' else ''POD_PENDING'');
                      note = (if approved then Some ''POD verified and approved''
                              else or_else notes (Some ''POD needs correction''))
                  in case update_load (pod_loadId pod) (\<lambda>r. r\<lparr>load_status := target\<rparr>) db1 of
                       None \<Rightarrow> (NextError record_not_found, db1)
                     | Some db2 \<Rightarrow>
                         (ApiSuccess 200 ''POD verified successfully'',
                          add_history (pod_loadId pod) (template_str (map_option load_status
                              (find_load (pod_loadId pod) db))) target
                            (user_id u) ''INTERNAL_USER'' note db2))))"

section \<open>Vehicle assignment: vehicles.controller.js\<close>

record vehicle =
  vehicle_id :: string
  unitNumber :: string

record vehicleAssignment =
  va_id :: string
  va_vehicleId :: string
  va_driverId :: string
  va_notes :: "string option"
  isCurrentlyAssigned :: bool
  unassignedAt :: "nat option"

record fleet_db =
  vehicles :: "vehicle list"
  fleet_drivers :: "driver list"
  vehicleAssignments :: "vehicleAssignment list"

text \<open>
  The \<^verbatim>\<open>updateMany\<close> both methods share: every row of the vehicle that is currently
  assigned is switched off and stamped.
\<close>

definition unassign_current :: "nat \<Rightarrow> string \<Rightarrow> vehicleAssignment list \<Rightarrow> vehicleAssignment list" where
  "unassign_current now v rows =
     update_rows (\<lambda>a. va_vehicleId a = v \<and> isCurrentlyAssigned a)
       (\<lambda>a. a\<lparr>isCurrentlyAssigned := False, unassignedAt := Some now\<rparr>) rows"

definition assignVehicle ::
  "string \<Rightarrow> nat \<Rightarrow> string \<Rightarrow> string \<Rightarrow> string option \<Rightarrow> fleet_db \<Rightarrow> response \<times> fleet_db" where
  "assignVehicle new_id now v driverId notes db =
     (case find (\<lambda>x. vehicle_id x = v) (vehicles db) of
        None \<Rightarrow> (ApiError 404 ''Vehicle not found'', db)
      | Some _ \<Rightarrow>
          (case find (\<lambda>d. driver_id d = driverId) (fleet_drivers db) of
             None \<Rightarrow> (ApiError 404 ''Driver not found'', db)
           | Some _ \<Rightarrow>
               (ApiSuccess 200 ''Vehicle assigned successfully'',
                db\<lparr>vehicleAssignments := unassign_current now v (vehicleAssignments db) @
                  [\<lparr>va_id = new_id, va_vehicleId = v, va_driverId = driverId, va_notes = notes,
                    isCurrentlyAssigned = True, unassignedAt = None\<rparr>]\<rparr>)))"

definition unassignVehicle :: "nat \<Rightarrow> string \<Rightarrow> fleet_db \<Rightarrow> response \<times> fleet_db" where
  "unassignVehicle now v db =
     (ApiSuccess 200 ''Vehicle unassigned successfully'',
      db\<lparr>vehicleAssignments := unassign_current now v (vehicleAssignments db)\<rparr>)"

text \<open>A call of either method, and a run of calls one after the other.\<close>

datatype fleet_call =
    Assign string nat string string "string option"
  | Unassign nat string

fun fleet_step :: "fleet_call \<Rightarrow> fleet_db \<Rightarrow> fleet_db" where
  "fleet_step (Assign new_id now v d notes) db = snd (assignVehicle new_id now v d notes db)"
| "fleet_step (Unassign now v) db = snd (unassignVehicle now v db)"

definition fleet_run :: "fleet_call list \<Rightarrow> fleet_db \<Rightarrow> fleet_db" where
  "fleet_run calls db = fold fleet_step calls db"

definition current_assignments :: "string \<Rightarrow> fleet_db \<Rightarrow> vehicleAssignment list" where
  "current_assignments v db =
     filter (\<lambda>a. va_vehicleId a = v \<and> isCurrentlyAssigned a) (vehicleAssignments db)"

section \<open>Settlements: settlements.controller.js\<close>

text \<open>
  A deduction of the request body: \<open>amount_text\<close> is how the raw value prints,
  \<open>parsed_amount\<close> the number \<^verbatim>\<open>parseFloat\<close> makes of it. A settlement row holds the
  numbers the method hands to the ORM; what the decimal columns make of them is not in
  the sources. The table lists the settlements in the order of their creation. The
  notification sent after the rows are written is left out.
\<close>

record deduction_input =
  in_description :: "string option"
  amount_text :: string
  parsed_amount :: js_number
  in_category :: "string option"

record settlementDeduction =
  ded_settlementId :: string
  ded_description :: "string option"
  ded_amount :: js_number
  ded_category :: string

record driverSettlement =
  st_id :: string
  st_driverId :: string
  st_loadId :: "string option"
  settlementNumber :: string
  periodStart :: nat
  periodEnd :: nat
  grossAmount :: js_number
  totalDeductions :: js_number
  netAmount :: js_number
  st_status :: string
  st_notes :: "string option"

record settlement_db =
  st_loads :: "load list"
  st_assignments :: "loadAssignment list"
  settlements :: "driverSettlement list"
  deductions :: "settlementDeduction list"

subsection \<open>The settlement number\<close>

text \<open>\<^verbatim>\<open>String(n)\<close> for a natural number.\<close>

fun show_nat :: "nat \<Rightarrow> string" where
  "show_nat n =
     (if n < 10 then [''0123456789'' ! n]
      else show_nat (n div 10) @ [''0123456789'' ! (n mod 10)])"

declare show_nat.simps [simp del]

text \<open>
  \<^verbatim>\<open>parseInt\<close> on a string of the form this method writes: the leading decimal
  digits, \<open>None\<close> (\<^verbatim>\<open>NaN\<close>) when there are none. Signs, blanks and hexadecimal
  prefixes, which \<^verbatim>\<open>parseInt\<close> also reads, are not modelled.
\<close>

definition parseInt :: "string \<Rightarrow> nat option" where
  "parseInt s =
     (case takeWhile (\<lambda>c. c \<in> set ''0123456789'') s of
        [] \<Rightarrow> None
      | ds \<Rightarrow> Some (foldl (\<lambda>acc c. 10 * acc + length (takeWhile (\<lambda>d. d \<noteq> c) ''0123456789'')) 0 ds))"

text \<open>\<^verbatim>\<open>s.split('-')\<close>.\<close>

fun split_dash :: "string \<Rightarrow> string list" where
  "split_dash [] = [[]]"
| "split_dash (c # cs) =
     (if c = CHR ''-'' then [] # split_dash cs
      else (case split_dash cs of [] \<Rightarrow> [[c]] | seg # segs \<Rightarrow> (c # seg) # segs))"

text \<open>\<^verbatim>\<open>s.padStart(4, '0')\<close>.\<close>

definition padStart4 :: "string \<Rightarrow> string" where
  "padStart4 s = replicate (4 - length s) (CHR ''0'') @ s"

text \<open>
  \<^verbatim>\<open>_generateSettlementNumber\<close>, in the year \<open>year\<close>
  (\<^verbatim>\<open>new Date().getFullYear()\<close>): one more than the number of the settlement of that
  year created last.
\<close>

definition generateSettlementNumber :: "nat \<Rightarrow> settlement_db \<Rightarrow> string" where
  "generateSettlementNumber year db =
     (let pre = ''SETTLE-'' @ show_nat year @ ''-'' in
      case find (\<lambda>s. take (length pre) (settlementNumber s) = pre) (rev (settlements db)) of
        None \<Rightarrow> pre @ ''0001''
      | Some lastSettlement \<Rightarrow>
          (let segs = split_dash (settlementNumber lastSettlement);
               lastNumber = (if length segs > 2 then parseInt (segs ! 2) else None)
           in pre @ padStart4 (case lastNumber of None \<Rightarrow> ''NaN'' | Some n \<Rightarrow> show_nat (n + 1))))"

text \<open>
  Both creation methods call \<^verbatim>\<open>this._generateSettlementNumber()\<close>. \<^verbatim>\<open>this\<close> is the
  controller when the method is called on the controller object, and
  \<^verbatim>\<open>undefined\<close> when the method is called as a bare function (class bodies are strict
  code); reading a property of \<^verbatim>\<open>undefined\<close> throws a \<^verbatim>\<open>TypeError\<close>, which the
  \<^verbatim>\<open>catch\<close> block hands to \<^verbatim>\<open>next\<close>.
\<close>

datatype this_value = This_undefined | This_controller

definition this_generateSettlementNumber ::
  "this_value \<Rightarrow> nat \<Rightarrow> settlement_db \<Rightarrow> string + string" where
  "this_generateSettlementNumber this year db =
     (case this of
        This_undefined \<Rightarrow>
          Inl ''Cannot read properties of undefined (reading '_generateSettlementNumber')''
      | This_controller \<Rightarrow> Inr (generateSettlementNumber year db))"

subsection \<open>Creating a settlement\<close>

text \<open>\<^verbatim>\<open>isNaN(amount) || amount < 0\<close>.\<close>

definition invalid_amount :: "js_number \<Rightarrow> bool" where
  "invalid_amount amount = (amount = NaN \<or> js_less amount (Num 0))"

text \<open>
  The \<^verbatim>\<open>deductions.map\<close> callback run over the list with the running
  \<^verbatim>\<open>totalDeductions\<close>: the first amount that is \<^verbatim>\<open>NaN\<close> or negative throws.
\<close>

fun validatedDeductions ::
  "string \<Rightarrow> deduction_input list \<Rightarrow> js_number
     \<Rightarrow> string + (settlementDeduction list \<times> js_number)" where
  "validatedDeductions sid [] running = Inr ([], running)"
| "validatedDeductions sid (d # ds) running =
     (let amount = parsed_amount d in
      if invalid_amount amount then Inl (''Invalid deduction amount: '' @ amount_text d)
      else
        (case validatedDeductions sid ds (js_add running amount) of
           Inl e \<Rightarrow> Inl e
         | Inr (vs, t) \<Rightarrow>
             Inr (\<lparr>ded_settlementId = sid, ded_description = in_description d,
                    ded_amount = amount,
                    ded_category = template_str (or_else (in_category d) (Some ''OTHER''))\<rparr> # vs,
                  t)))"

definition accepted_assignment :: "loadAssignment \<Rightarrow> bool" where
  "accepted_assignment a = (acceptedAt a \<noteq> None \<and> rejectedAt a = None)"

definition date_or :: "nat option \<Rightarrow> nat \<Rightarrow> nat" where
  "date_or a b = (case a of Some t \<Rightarrow> t | None \<Rightarrow> b)"

text \<open>
  \<^verbatim>\<open>createSettlementFromLoad\<close>; \<^verbatim>\<open>Number(load.driverPay)\<close> is the double nearest to
  the stored decimal.
\<close>

definition createSettlementFromLoad ::
  "this_value \<Rightarrow> nat \<Rightarrow> string \<Rightarrow> string \<Rightarrow> deduction_input list \<Rightarrow> settlement_db
     \<Rightarrow> response \<times> settlement_db" where
  "createSettlementFromLoad this year new_id loadId ds db =
     (case find (\<lambda>l. load_id l = loadId) (st_loads db) of
        None \<Rightarrow> (ApiError 404 ''Load not found'', db)
      | Some l \<Rightarrow>
          if load_status l \<noteq> ''COMPLETED''
          then (ApiError 400 ''Load must be completed before creating settlement'', db)
          else
            (case driverPay l of
               None \<Rightarrow> (ApiError 400 ''Driver pay not set for this load'', db)
             | Some pay \<Rightarrow>
                 (case filter (\<lambda>a. asg_loadId a = loadId \<and> accepted_assignment a) (st_assignments db) of
                    [] \<Rightarrow> (ApiError 404 ''No accepted driver assignment found'', db)
                  | assignment # _ \<Rightarrow>
                      (case find (\<lambda>s. st_loadId s = Some loadId \<and> st_status s \<noteq> ''DISPUTED'')
                              (settlements db) of
                         Some _ \<Rightarrow> (ApiError 400 ''Settlement already exists for this load'', db)
                       | None \<Rightarrow>
                           (case this_generateSettlementNumber this year db of
                              Inl e \<Rightarrow> (NextError e, db)
                            | Inr number \<Rightarrow>
                                (let gross = round64 pay in
                                 case validatedDeductions new_id ds (Num 0) of
                                   Inl e \<Rightarrow> (NextError e, db)
                                 | Inr (vs, deducted) \<Rightarrow>
                                     (let net = js_sub gross deducted in
                                      if js_less net (Num 0)
                                      then (ApiError 400 ''Deductions exceed gross amount'', db)
                                      else
                                        (ApiSuccess 201 ''Settlement created successfully'',
                                         db\<lparr>settlements := settlements db @
                                              [\<lparr>st_id = new_id,
                                                st_driverId = asg_driverId assignment,
                                                st_loadId = Some loadId,
                                                settlementNumber = number,
                                                periodStart =
                                                  date_or (actualPickupTime l) (pickupDate l),
                                                periodEnd =
                                                  date_or (actualDeliveryTime l) (deliveryDate l),
                                                grossAmount = gross, totalDeductions = deducted,
                                                netAmount = net, st_status = ''PENDING'',
                                                st_notes = None\<rparr>],
                                            deductions := deductions db @ vs\<rparr>))))))))"

text \<open>\<^verbatim>\<open>loads.reduce((sum, load) => sum + Number(load.driverPay), 0)\<close>.\<close>

definition gross_of :: "load list \<Rightarrow> js_number" where
  "gross_of ls =
     foldl (\<lambda>sum l. js_add sum (case driverPay l of Some p \<Rightarrow> round64 p | None \<Rightarrow> Num 0)) (Num 0) ls"

definition join_ids :: "string list \<Rightarrow> string" where
  "join_ids xs = (case xs of [] \<Rightarrow> [] | y # ys \<Rightarrow> foldl (\<lambda>acc x. acc @ '', '' @ x) y ys)"

text \<open>
  The \<^verbatim>\<open>findMany\<close> of \<^verbatim>\<open>createPeriodSettlement\<close>: completed loads delivered within the
  period, with an accepted assignment of the driver and a driver pay.
\<close>

definition period_loads :: "string \<Rightarrow> nat \<Rightarrow> nat \<Rightarrow> settlement_db \<Rightarrow> load list" where
  "period_loads drv startDate endDate db =
     filter (\<lambda>l. load_status l = ''COMPLETED''
               \<and> (case actualDeliveryTime l of
                     None \<Rightarrow> False
                   | Some t \<Rightarrow> startDate \<le> t \<and> t \<le> endDate)
               \<and> filter (\<lambda>a. asg_loadId a = load_id l \<and> asg_driverId a = drv
                             \<and> accepted_assignment a) (st_assignments db) \<noteq> []
               \<and> driverPay l \<noteq> None) (st_loads db)"

text \<open>The notes of a period settlement.\<close>

definition period_notes :: "load list \<Rightarrow> string" where
  "period_notes ls =
     ''Period settlement for '' @ show_nat (length ls) @ '' loads: '' @
       join_ids (map loadNumber ls)"

text \<open>
  \<^verbatim>\<open>createPeriodSettlement\<close>. The two ends of the period are taken as times in
  milliseconds; a missing value and the number 0 are both falsy.
\<close>

definition createPeriodSettlement ::
  "this_value \<Rightarrow> nat \<Rightarrow> string \<Rightarrow> string option \<Rightarrow> nat option \<Rightarrow> nat option
     \<Rightarrow> deduction_input list \<Rightarrow> settlement_db \<Rightarrow> response \<times> settlement_db" where
  "createPeriodSettlement this year new_id driverId pStart pEnd ds db =
     (case (or_else driverId None, pStart, pEnd) of
        (Some drv, Some startDate, Some endDate) \<Rightarrow>
         (if startDate = 0 \<or> endDate = 0
          then (ApiError 400 ''driverId, periodStart, and periodEnd are required'', db)
          else if startDate \<ge> endDate
          then (ApiError 400 ''periodStart must be before periodEnd'', db)
          else
            (let ls = period_loads drv startDate endDate db
             in if ls = []
                then (ApiError 404 ''No completed loads found in period for this driver'', db)
                else
                  (let existing = filter (\<lambda>s. (case st_loadId s of
                                                   None \<Rightarrow> False
                                                 | Some i \<Rightarrow> i \<in> set (map load_id ls))
                                              \<and> st_status s \<noteq> ''DISPUTED'') (settlements db)
                   in if existing \<noteq> []
                      then (ApiError 400 (''Some loads already have settlements: '' @
                              join_ids (map (\<lambda>s. template_str (st_loadId s)) existing)), db)
                      else
                        (let gross = gross_of ls in
                         case validatedDeductions new_id ds (Num 0) of
                           Inl e \<Rightarrow> (NextError e, db)
                         | Inr (vs, deducted) \<Rightarrow>
                             (let net = js_sub gross deducted in
                              if js_less net (Num 0)
                              then (ApiError 400 ''Deductions exceed gross amount'', db)
                              else
                                (case this_generateSettlementNumber this year db of
                                   Inl e \<Rightarrow> (NextError e, db)
                                 | Inr number \<Rightarrow>
                                     (ApiSuccess 201 ''Period settlement created'',
                                      db\<lparr>settlements := settlements db @
                                           [\<lparr>st_id = new_id, st_driverId = drv, st_loadId = None,
                                             settlementNumber = number,
                                             periodStart = startDate, periodEnd = endDate,
                                             grossAmount = gross, totalDeductions = deducted,
                                             netAmount = net, st_status = ''PENDING'',
                                             st_notes = Some (period_notes ls)\<rparr>],
                                         deductions := deductions db @ vs\<rparr>)))))))
      | _ \<Rightarrow> (ApiError 400 ''driverId, periodStart, and periodEnd are required'', db))"

text \<open>
  settlements.routes.js hands both methods to the router as bare functions
  (\<^verbatim>\<open>settlementController.createSettlementFromLoad\<close>), after the authentication and
  audit middleware, which are not modelled.
\<close>

definition route_createSettlementFromLoad ::
  "nat \<Rightarrow> string \<Rightarrow> string \<Rightarrow> deduction_input list \<Rightarrow> settlement_db
     \<Rightarrow> response \<times> settlement_db" where
  "route_createSettlementFromLoad = createSettlementFromLoad This_undefined"

definition route_createPeriodSettlement ::
  "nat \<Rightarrow> string \<Rightarrow> string option \<Rightarrow> nat option \<Rightarrow> nat option
     \<Rightarrow> deduction_input list \<Rightarrow> settlement_db \<Rightarrow> response \<times> settlement_db" where
  "route_createPeriodSettlement = createPeriodSettlement This_undefined"

section \<open>Invoices: invoices.controller.js\<close>

text \<open>
  A line item of the request body; \<open>li_amount\<close> is the number \<^verbatim>\<open>parseFloat\<close> makes of
  its amount. An invoice row holds the numbers the method hands to the ORM, also when
  they are \<^verbatim>\<open>NaN\<close>; what the decimal columns make of them is not in the sources. The
  invoice number and the due date, which play no part in the amounts, are left out.
  The tax rate of a request is not stored with the invoice.
\<close>

record lineItem =
  li_description :: string
  quantity :: js_number
  unitPrice :: js_number
  li_amount :: js_number

record shipperInvoice =
  inv_id :: string
  inv_loadId :: string
  inv_shipperClientId :: string
  subtotal :: js_number
  taxAmount :: js_number
  inv_total :: js_number
  inv_status :: string
  inv_notes :: "string option"

record invoice_db =
  inv_loads :: "load list"
  invoices :: "shipperInvoice list"
  lineItems :: "(string \<times> lineItem) list"

text \<open>\<^verbatim>\<open>items.forEach(item => { subtotal += parseFloat(item.amount); })\<close> from 0.\<close>

definition subtotal_of :: "lineItem list \<Rightarrow> js_number" where
  "subtotal_of items = foldl (\<lambda>s item. js_add s (li_amount item)) (Num 0) items"

text \<open>\<^verbatim>\<open>parseFloat(load.shipperRate)\<close>: \<^verbatim>\<open>NaN\<close> for \<^verbatim>\<open>null\<close>.\<close>

definition parsed_rate :: "load \<Rightarrow> js_number" where
  "parsed_rate l = (case shipperRate l of None \<Rightarrow> NaN | Some r \<Rightarrow> round64 r)"

text \<open>The line item of an invoice created without line items.\<close>

definition freight_item :: "load \<Rightarrow> lineItem" where
  "freight_item l =
     \<lparr>li_description = ''Freight charges - Load '' @ loadNumber l, quantity = Num 1,
      unitPrice = parsed_rate l, li_amount = parsed_rate l\<rparr>"

definition createInvoiceFromLoad ::
  "string \<Rightarrow> string \<Rightarrow> lineItem list option \<Rightarrow> js_number option \<Rightarrow> string option \<Rightarrow> invoice_db
     \<Rightarrow> response \<times> invoice_db" where
  "createInvoiceFromLoad new_id loadId items_opt taxRate_opt notes db =
     (case find (\<lambda>l. load_id l = loadId) (inv_loads db) of
        None \<Rightarrow> (ApiError 404 ''Load not found'', db)
      | Some l \<Rightarrow>
          if load_status l \<noteq> ''COMPLETED''
          then (ApiError 400 ''Load must be completed before invoicing'', db)
          else
            (case find (\<lambda>v. inv_loadId v = loadId \<and> inv_status v \<noteq> ''CANCELLED'') (invoices db) of
               Some _ \<Rightarrow> (ApiError 400 ''Invoice already exists for this load'', db)
             | None \<Rightarrow>
                 (let taxRate = (case taxRate_opt of None \<Rightarrow> Num 0 | Some r \<Rightarrow> r);
                      invoiceLineItems =
                        (case items_opt of
                           Some items \<Rightarrow> items
                         | None \<Rightarrow> [freight_item l]);
                      sub = subtotal_of invoiceLineItems;
                      tax = js_mul sub (js_div taxRate (Num 100));
                      tot = js_add sub tax
                  in (ApiSuccess 201 ''Invoice created successfully'',
                      db\<lparr>invoices := invoices db @
                           [\<lparr>inv_id = new_id, inv_loadId = loadId,
                             inv_shipperClientId = shipperClientId l, subtotal = sub,
                             taxAmount = tax, inv_total = tot, inv_status = ''DRAFT'',
                             inv_notes = notes\<rparr>],
                         lineItems := lineItems db @ map (Pair new_id) invoiceLineItems\<rparr>))))"




section \<open>Login and lockout: auth.controller.js\<close>

text \<open>
  The three principal tables share the credential columns; a shipper user also carries
  the status of its shipper client, read with the user. \<open>cmp\<close> stands for
  \<^verbatim>\<open>bcrypt.compare\<close>.
\<close>

record principal =
  p_id :: string
  email :: string
  passwordHash :: string
  isActive :: bool
  failedLoginAttempts :: nat
  lockedUntil :: "nat option"
  lastLogin :: "nat option"

record shipperUser = principal +
  shipperClient_status :: string

record auth_db =
  internalUsers :: "principal list"
  shipperUsers :: "shipperUser list"
  driverAccounts :: "principal list"

text \<open>\<^verbatim>\<open>email.toLowerCase()\<close>, on the ASCII letters.\<close>

definition toLowerCase :: "string \<Rightarrow> string" where
  "toLowerCase s =
     map (\<lambda>c. case map_of (zip ''ABCDEFGHIJKLMNOPQRSTUVWXYZ'' ''abcdefghijklmnopqrstuvwxyz'') c of
                None \<Rightarrow> c
              | Some d \<Rightarrow> d) s"

definition lock_window :: nat where
  "lock_window = 15 * 60 * 1000"

text \<open>\<^verbatim>\<open>user.lockedUntil && user.lockedUntil > new Date()\<close>.\<close>

definition is_locked :: "nat \<Rightarrow> nat option \<Rightarrow> bool" where
  "is_locked now until = (case until of None \<Rightarrow> False | Some t \<Rightarrow> t > now)"

definition loginInternalUser ::
  "(string \<Rightarrow> string \<Rightarrow> bool) \<Rightarrow> nat \<Rightarrow> string \<Rightarrow> string \<Rightarrow> auth_db \<Rightarrow> response \<times> auth_db" where
  "loginInternalUser cmp now mail password db =
     (case find (\<lambda>p. email p = toLowerCase mail) (internalUsers db) of
        None \<Rightarrow> (ApiError 401 ''Invalid email or password'', db)
      | Some usr \<Rightarrow>
          if is_locked now (lockedUntil usr)
          then (ApiError 423 ''Account is locked. Please try again later.'', db)
          else if \<not> isActive usr then (ApiError 403 ''Account is inactive'', db)
          else if \<not> cmp password (passwordHash usr)
          then
            (let failedAttempts = failedLoginAttempts usr + 1 in
             (ApiError 401 ''Invalid email or password'',
              db\<lparr>internalUsers := update_rows (\<lambda>p. p_id p = p_id usr)
                (\<lambda>p. if failedAttempts \<ge> 5
                      then p\<lparr>failedLoginAttempts := failedAttempts,
                             lockedUntil := Some (now + lock_window)\<rparr>
                      else p\<lparr>failedLoginAttempts := failedAttempts\<rparr>) (internalUsers db)\<rparr>))
          else
            (ApiSuccess 200 ''Login successful'',
             db\<lparr>internalUsers := update_rows (\<lambda>p. p_id p = p_id usr)
               (\<lambda>p. p\<lparr>failedLoginAttempts := 0, lockedUntil := None, lastLogin := Some now\<rparr>)
               (internalUsers db)\<rparr>))"

definition loginShipperUser ::
  "(string \<Rightarrow> string \<Rightarrow> bool) \<Rightarrow> nat \<Rightarrow> string \<Rightarrow> string \<Rightarrow> auth_db \<Rightarrow> response \<times> auth_db" where
  "loginShipperUser cmp now mail password db =
     (case find (\<lambda>p. email p = toLowerCase mail) (shipperUsers db) of
        None \<Rightarrow> (ApiError 401 ''Invalid email or password'', db)
      | Some usr \<Rightarrow>
          if is_locked now (lockedUntil usr)
          then (ApiError 423 ''Account is locked. Please try again later.'', db)
          else if \<not> isActive usr then (ApiError 403 ''Account is inactive'', db)
          else if shipperClient_status usr \<noteq> ''ACTIVE''
          then (ApiError 403 ''Shipper account is inactive'', db)
          else if \<not> cmp password (passwordHash usr)
          then
            (let failedAttempts = failedLoginAttempts usr + 1 in
             (ApiError 401 ''Invalid email or password'',
              db\<lparr>shipperUsers := update_rows (\<lambda>p. p_id p = p_id usr)
                (\<lambda>p. if failedAttempts \<ge> 5
                      then p\<lparr>failedLoginAttempts := failedAttempts,
                             lockedUntil := Some (now + lock_window)\<rparr>
                      else p\<lparr>failedLoginAttempts := failedAttempts\<rparr>) (shipperUsers db)\<rparr>))
          else
            (ApiSuccess 200 ''Login successful'',
             db\<lparr>shipperUsers := update_rows (\<lambda>p. p_id p = p_id usr)
               (\<lambda>p. p\<lparr>failedLoginAttempts := 0, lockedUntil := None, lastLogin := Some now\<rparr>)
               (shipperUsers db)\<rparr>))"

definition loginDriver ::
  "(string \<Rightarrow> string \<Rightarrow> bool) \<Rightarrow> nat \<Rightarrow> string \<Rightarrow> string \<Rightarrow> auth_db \<Rightarrow> response \<times> auth_db" where
  "loginDriver cmp now mail password db =
     (case find (\<lambda>p. email p = toLowerCase mail) (driverAccounts db) of
        None \<Rightarrow> (ApiError 401 ''Invalid email or password'', db)
      | Some drv \<Rightarrow>
          if is_locked now (lockedUntil drv)
          then (ApiError 423 ''Account is locked. Please try again later.'', db)
          else if \<not> isActive drv then (ApiError 403 ''Account is inactive'', db)
          else if \<not> cmp password (passwordHash drv)
          then
            (let failedAttempts = failedLoginAttempts drv + 1 in
             (ApiError 401 ''Invalid email or password'',
              db\<lparr>driverAccounts := update_rows (\<lambda>p. p_id p = p_id drv)
                (\<lambda>p. if failedAttempts \<ge> 5
                      then p\<lparr>failedLoginAttempts := failedAttempts,
                             lockedUntil := Some (now + lock_window)\<rparr>
                      else p\<lparr>failedLoginAttempts := failedAttempts\<rparr>) (driverAccounts db)\<rparr>))
          else
            (ApiSuccess 200 ''Login successful'',
             db\<lparr>driverAccounts := update_rows (\<lambda>p. p_id p = p_id drv)
               (\<lambda>p. p\<lparr>failedLoginAttempts := 0, lockedUntil := None, lastLogin := Some now\<rparr>)
               (driverAccounts db)\<rparr>))"

text \<open>The three login routes of auth.routes.js, and the credential columns of a principal.\<close>

datatype principal_kind = INTERNAL_USER | SHIPPER_USER | DRIVER

fun login ::
  "principal_kind \<Rightarrow> (string \<Rightarrow> string \<Rightarrow> bool) \<Rightarrow> nat \<Rightarrow> string \<Rightarrow> string \<Rightarrow> auth_db
     \<Rightarrow> response \<times> auth_db" where
  "login INTERNAL_USER = loginInternalUser"
| "login SHIPPER_USER = loginShipperUser"
| "login DRIVER = loginDriver"

fun principal_of :: "principal_kind \<Rightarrow> string \<Rightarrow> auth_db \<Rightarrow> principal option" where
  "principal_of INTERNAL_USER mail db = find (\<lambda>p. email p = toLowerCase mail) (internalUsers db)"
| "principal_of SHIPPER_USER mail db =
     map_option principal.truncate (find (\<lambda>p. email p = toLowerCase mail) (shipperUsers db))"
| "principal_of DRIVER mail db = find (\<lambda>p. email p = toLowerCase mail) (driverAccounts db)"

text \<open>
  A run of login attempts on one account, each with its time and password; whether the
  shipper client of a shipper user is active (the other principals have none); and the
  row a failed password check writes back.
\<close>

fun login_attempts ::
  "principal_kind \<Rightarrow> (string \<Rightarrow> string \<Rightarrow> bool) \<Rightarrow> string \<Rightarrow> (nat \<times> string) list \<Rightarrow> auth_db \<Rightarrow> auth_db" where
  "login_attempts k cmp mail [] db = db"
| "login_attempts k cmp mail ((now, pw) # rest) db =
     login_attempts k cmp mail rest (snd (login k cmp now mail pw db))"

fun client_ok :: "principal_kind \<Rightarrow> string \<Rightarrow> auth_db \<Rightarrow> bool" where
  "client_ok SHIPPER_USER mail db =
     (case find (\<lambda>p. email p = toLowerCase mail) (shipperUsers db) of
        None \<Rightarrow> False
      | Some usr \<Rightarrow> shipperClient_status usr = ''ACTIVE'')"
| "client_ok _ mail db = True"

definition after_failure :: "nat \<Rightarrow> principal \<Rightarrow> principal" where
  "after_failure now p =
     (if failedLoginAttempts p + 1 \<ge> 5
      then p\<lparr>failedLoginAttempts := failedLoginAttempts p + 1, lockedUntil := Some (now + lock_window)\<rparr>
      else p\<lparr>failedLoginAttempts := failedLoginAttempts p + 1\<rparr>)"

section \<open>Sample data\<close>

definition sample_load :: "string \<Rightarrow> load" where
  "sample_load s =
     \<lparr>load_id = ''L1'', loadNumber = ''LOAD-2026-0001'', load_status = s, shipperClientId = ''S1'',
      shipperRate = Some 1500, driverPay = Some 1000, approvedNegotiationId = None,
      pickupDate = 100, deliveryDate = 200, actualPickupTime = None, actualDeliveryTime = None\<rparr>"

definition sample_db :: "string \<Rightarrow> load_db" where
  "sample_db s =
     \<lparr>loads = [sample_load s], history = [], statusEvents = [], negotiations = [],
      assignments = [], drivers = [], podDocuments = [], podPhotos = [], fileUploads = []\<rparr>"

definition dispatcher :: user where
  "dispatcher = \<lparr>user_id = ''U1'', user_type = ''INTERNAL_USER''\<rparr>"

definition driver_d1 :: user where
  "driver_d1 = \<lparr>user_id = ''D1'', user_type = ''DRIVER''\<rparr>"

definition driver_d2 :: user where
  "driver_d2 = \<lparr>user_id = ''D2'', user_type = ''DRIVER''\<rparr>"

definition shipper_s1 :: user where
  "shipper_s1 = \<lparr>user_id = ''SU1'', user_type = ''SHIPPER_USER''\<rparr>"

definition sample_negotiation :: "string \<Rightarrow> loadNegotiation" where
  "sample_negotiation s =
     \<lparr>neg_id = ''N1'', neg_loadId = ''L1'', proposedRate = Some 1200, counterRate = Some 1350,
      neg_notes = None, initiatedBy = ''SHIPPER'', handledById = None, neg_status = s,
      respondedAt = None\<rparr>"

definition sample_assignment :: "nat option \<Rightarrow> nat option \<Rightarrow> loadAssignment" where
  "sample_assignment acc rej =
     \<lparr>asg_id = ''A1'', asg_loadId = ''L1'', asg_driverId = ''D1'', assignedById = ''U1'',
      asg_notes = None, acceptedAt = acc, rejectedAt = rej, rejectionReason = None\<rparr>"

definition sample_pod :: podDocument where
  "sample_pod =
     \<lparr>pod_id = ''P1'', pod_loadId = ''L1'', pod_driverId = ''D1'',
      signatureImage = ''/uploads/pod-signatures/s.png'', pod_notes = None, verifiedAt = None,
      verifiedById = None\<rparr>"

definition sample_signature :: upload_file where
  "sample_signature =
     \<lparr>mimetype = ''image/png'', file_size = 2048, stored_url = ''/uploads/pod-signatures/s.png''\<rparr>"

text \<open>A response sent through \<^verbatim>\<open>ApiResponse.success\<close>.\<close>

fun is_success :: "response \<Rightarrow> bool" where
  "is_success (ApiSuccess _ _) = True"
| "is_success _ = False"

definition sample_fleet :: fleet_db where
  "sample_fleet =
     \<lparr>vehicles = [\<lparr>vehicle_id = ''V1'', unitNumber = ''T-100''\<rparr>],
      fleet_drivers =
        [\<lparr>driver_id = ''D1'', firstName = ''Ann'', lastName = ''Lee'', drv_isActive = True,
          isAvailable = True\<rparr>,
         \<lparr>driver_id = ''D2'', firstName = ''Bo'', lastName = ''Roy'', drv_isActive = True,
          isAvailable = True\<rparr>],
      vehicleAssignments = []\<rparr>"

definition sample_calls :: "fleet_call list" where
  "sample_calls =
     [Assign ''VA1'' 10 ''V1'' ''D1'' None, Assign ''VA2'' 20 ''V1'' ''D2'' None,
      Unassign 30 ''V1'', Assign ''VA3'' 40 ''V1'' ''D1'' None]"

definition sample_principal :: principal where
  "sample_principal =
     \<lparr>p_id = ''D1'', email = ''ann@example.com'', passwordHash = ''secret'', isActive = True,
      failedLoginAttempts = 0, lockedUntil = None, lastLogin = None\<rparr>"

definition sample_auth :: auth_db where
  "sample_auth = \<lparr>internalUsers = [], shipperUsers = [], driverAccounts = [sample_principal]\<rparr>"

definition sample_tries :: "(nat \<times> string) list" where
  "sample_tries = [(1000, ''a''), (2000, ''b''), (3000, ''c''), (4000, ''d''), (5000, ''e'')]"


definition sample_deduction :: "string \<Rightarrow> js_number \<Rightarrow> deduction_input" where
  "sample_deduction txt a =
     \<lparr>in_description = Some ''fuel advance'', amount_text = txt, parsed_amount = a,
      in_category = None\<rparr>"

definition sample_settlement_db :: settlement_db where
  "sample_settlement_db =
     \<lparr>st_loads = [(sample_load ''COMPLETED'')\<lparr>actualDeliveryTime := Some 150\<rparr>],
      st_assignments = [sample_assignment (Some 2) None], settlements = [], deductions = []\<rparr>"

text \<open>The same load with a driver pay of 0.30.\<close>

definition small_pay_db :: settlement_db where
  "small_pay_db =
     \<lparr>st_loads = [(sample_load ''COMPLETED'')\<lparr>driverPay := Some (3 / 10),
                    actualDeliveryTime := Some 150\<rparr>],
      st_assignments = [sample_assignment (Some 2) None], settlements = [], deductions = []\<rparr>"

definition sample_item :: "js_number \<Rightarrow> lineItem" where
  "sample_item a = \<lparr>li_description = ''Freight'', quantity = Num 1, unitPrice = a, li_amount = a\<rparr>"

definition sample_invoice_db :: invoice_db where
  "sample_invoice_db = \<lparr>inv_loads = [sample_load ''COMPLETED''], invoices = [], lineItems = []\<rparr>"



text \<open>
  Load L1 delivered by driver D2: driver D1 rejected the assignment at time 3, and
  driver D2, assigned in their place, accepted at time 5.
\<close>

definition reassigned_db :: load_db where
  "reassigned_db =
     (sample_db ''DELIVERED'')
       \<lparr>assignments :=
          [(sample_assignment None (Some 3))\<lparr>rejectionReason := Some ''truck in the shop''\<rparr>,
           \<lparr>asg_id = ''A2'', asg_loadId = ''L1'', asg_driverId = ''D2'', assignedById = ''U1'',
             asg_notes = None, acceptedAt = Some 5, rejectedAt = None, rejectionReason = None\<rparr>]\<rparr>"

section \<open>Facts about tables\<close>

lemma find_update_rows:
  "(\<And>r. key (f r) = key r) \<Longrightarrow>
   find (\<lambda>r. key r = k) (update_rows (\<lambda>r. key r = k) f rows) =
     map_option f (find (\<lambda>r. key r = k) rows)"
  by (induction rows) (auto simp: update_rows_def)

section \<open>Status updates and the adjacency table\<close>

lemma table_single_target:
  "map_of allowedTransitions cur = Some ts \<Longrightarrow> length ts = 1"
  by (auto simp: allowedTransitions_def split: if_splits)

text \<open>
  Claim C1, as the code has it. When the current status of the load is a key of the
  adjacency table (ACCEPTED, EN_ROUTE_PICKUP, AT_PICKUP, LOADED, EN_ROUTE_DELIVERY,
  AT_DELIVERY), the table lists exactly one next state for it, and a request for any
  other target is answered with status 400 and the message
  \<^verbatim>\<open>Invalid status transition from <current> to <requested>\<close>, the database left as
  it was.
\<close>

theorem updateLoadStatus_rejects_unlisted_target:
  assumes "find_load i db = Some l"
      and "map_of allowedTransitions (load_status l) = Some ts"
      and "status \<notin> set ts"
  shows "length ts = 1 \<and>
         updateLoadStatus u now i status notes db =
           (ApiError 400 (''Invalid status transition from '' @ load_status l @ '' to '' @ status), db)"
  using assms table_single_target[of "load_status l" ts]
  by (simp add: updateLoadStatus_def transition_refused_def)

theorem updateLoadStatus_rejects_unlisted_target_witness:
  "find_load ''L1'' (sample_db ''ACCEPTED'') = Some (sample_load ''ACCEPTED'')
   \<and> map_of allowedTransitions (load_status (sample_load ''ACCEPTED'')) = Some [''EN_ROUTE_PICKUP'']
   \<and> ''DELIVERED'' \<notin> set [''EN_ROUTE_PICKUP'']
   \<and> updateLoadStatus driver_d1 5 ''L1'' ''DELIVERED'' None (sample_db ''ACCEPTED'') =
       (ApiError 400 ''Invalid status transition from ACCEPTED to DELIVERED'', sample_db ''ACCEPTED'')"
proof -
  have a: "find_load ''L1'' (sample_db ''ACCEPTED'') = Some (sample_load ''ACCEPTED'')"
    by (simp add: find_load_def sample_db_def sample_load_def)
  have b: "map_of allowedTransitions (load_status (sample_load ''ACCEPTED'')) = Some [''EN_ROUTE_PICKUP'']"
    by (simp add: allowedTransitions_def sample_load_def)
  have c: "''DELIVERED'' \<notin> set [''EN_ROUTE_PICKUP'']" by simp
  from updateLoadStatus_rejects_unlisted_target[OF a b c, of driver_d1 5 None] a b c
  show ?thesis by (simp add: sample_load_def)
qed

text \<open>
  Claim C1 as stated fails: a load in DRAFT has no entry in the table, so no target is
  in the table for it, and yet the request to move it to COMPLETED is carried out.
\<close>

theorem updateLoadStatus_unlisted_counterexample:
  "map_of allowedTransitions ''DRAFT'' = None
   \<and> find_load ''L1'' (sample_db ''DRAFT'') = Some (sample_load ''DRAFT'')
   \<and> fst (updateLoadStatus driver_d1 5 ''L1'' ''COMPLETED'' None (sample_db ''DRAFT''))
       = ApiSuccess 200 ''Load status updated''
   \<and> find_load ''L1'' (snd (updateLoadStatus driver_d1 5 ''L1'' ''COMPLETED'' None (sample_db ''DRAFT'')))
       = Some (sample_load ''COMPLETED'')"
  by (simp add: allowedTransitions_def updateLoadStatus_def transition_refused_def find_load_def
      sample_db_def sample_load_def update_load_def update_unique_def update_rows_def updateData_def
      add_history_def driver_d1_def)

section \<open>Facts about the lifecycle tables\<close>

lemma update_load_found:
  "find_load i db = Some l \<Longrightarrow>
   update_load i f db = Some (db\<lparr>loads := update_rows (\<lambda>r. load_id r = i) f (loads db)\<rparr>)"
  by (simp add: update_load_def update_unique_def find_load_def)

lemma update_negotiation_found:
  "find_negotiation n db = Some g \<Longrightarrow>
   update_negotiation n f db =
     Some (db\<lparr>negotiations := update_rows (\<lambda>r. neg_id r = n) f (negotiations db)\<rparr>)"
  by (simp add: update_negotiation_def update_unique_def find_negotiation_def)

lemma update_assignment_found:
  "find_assignment a db = Some asg \<Longrightarrow>
   update_assignment a f db =
     Some (db\<lparr>assignments := update_rows (\<lambda>r. asg_id r = a) f (assignments db)\<rparr>)"
  by (simp add: update_assignment_def update_unique_def find_assignment_def)

lemma update_pod_found:
  "find_pod p db = Some pod \<Longrightarrow>
   update_pod p f db =
     Some (db\<lparr>podDocuments := update_rows (\<lambda>r. pod_id r = p) f (podDocuments db)\<rparr>)"
  by (simp add: update_pod_def update_unique_def find_pod_def)

lemma find_load_other_tables [simp]:
  "find_load i (db\<lparr>negotiations := ns\<rparr>) = find_load i db"
  "find_load i (db\<lparr>assignments := as\<rparr>) = find_load i db"
  "find_load i (db\<lparr>podDocuments := ps\<rparr>) = find_load i db"
  "find_load i (db\<lparr>podPhotos := pp\<rparr>) = find_load i db"
  "find_load i (db\<lparr>fileUploads := fs\<rparr>) = find_load i db"
  "find_load i (db\<lparr>history := hs\<rparr>) = find_load i db"
  "find_load i (db\<lparr>statusEvents := es\<rparr>) = find_load i db"
  by (simp_all add: find_load_def)

lemma find_load_set_loads:
  "find_load i (db\<lparr>loads := update_rows (\<lambda>r. load_id r = i) f ls\<rparr>) =
     find (\<lambda>r. load_id r = i) (update_rows (\<lambda>r. load_id r = i) f ls)"
  by (simp add: find_load_def)

lemma sample_load_found:
  "find_load ''L1'' (sample_db s) = Some (sample_load s)"
  by (simp add: find_load_def sample_db_def sample_load_def)

section \<open>Status changes and the history ledger\<close>

text \<open>
  Claim C2. The claim does not hold of the code: creating a negotiation on a load in
  PENDING_REVIEW moves the load to NEGOTIATING and writes no history row.
\<close>

theorem createNegotiation_changes_status_without_history:
  assumes "find_load i db = Some l" and "load_status l = ''PENDING_REVIEW''"
  shows "fst (createNegotiation u new_id i proposed counter notes db) =
           ApiSuccess 201 ''Negotiation created''
       \<and> map_option load_status
           (find_load i (snd (createNegotiation u new_id i proposed counter notes db))) =
           Some ''NEGOTIATING''
       \<and> history (snd (createNegotiation u new_id i proposed counter notes db)) = history db"
proof -
  have "find (\<lambda>r. load_id r = i) (loads db) = Some l"
    using assms(1) by (simp add: find_load_def)
  then show ?thesis
    using assms
    by (simp add: createNegotiation_def Let_def update_load_found find_load_set_loads
        find_update_rows)
qed

theorem createNegotiation_changes_status_without_history_witness:
  "find_load ''L1'' (sample_db ''PENDING_REVIEW'') = Some (sample_load ''PENDING_REVIEW'')
   \<and> load_status (sample_load ''PENDING_REVIEW'') = ''PENDING_REVIEW''
   \<and> fst (createNegotiation shipper_s1 ''N1'' ''L1'' (Some 1200) None None
            (sample_db ''PENDING_REVIEW'')) = ApiSuccess 201 ''Negotiation created''
   \<and> map_option load_status
       (find_load ''L1'' (snd (createNegotiation shipper_s1 ''N1'' ''L1'' (Some 1200) None None
          (sample_db ''PENDING_REVIEW'')))) = Some ''NEGOTIATING''
   \<and> history (snd (createNegotiation shipper_s1 ''N1'' ''L1'' (Some 1200) None None
          (sample_db ''PENDING_REVIEW''))) = []"
proof -
  have a: "find_load ''L1'' (sample_db ''PENDING_REVIEW'') = Some (sample_load ''PENDING_REVIEW'')"
    by (rule sample_load_found)
  have b: "load_status (sample_load ''PENDING_REVIEW'') = ''PENDING_REVIEW''"
    by (simp add: sample_load_def)
  have h: "history (sample_db ''PENDING_REVIEW'') = []"
    by (simp add: sample_db_def)
  from createNegotiation_changes_status_without_history
         [OF a b, of shipper_s1 "''N1''" "Some 1200" None None] a b h
  show ?thesis by simp
qed

text \<open>Accepting a negotiation, which moves the load to RATE_APPROVED, writes none either.\<close>

lemma acceptNegotiation_without_history:
  "history (snd (acceptNegotiation now n db)) = history db"
  by (auto simp: acceptNegotiation_def update_negotiation_def update_load_def
      split: option.splits)

section \<open>Negotiation resolution\<close>

text \<open>
  Claim C5. The claim does not hold of the code: rejecting a negotiation succeeds
  whatever the status of the negotiation is, also when it was accepted or rejected
  before; the row is set to REJECTED and no load is touched.
\<close>

theorem rejectNegotiation_ignores_status:
  assumes "find_negotiation n db = Some g"
  shows "fst (rejectNegotiation now n notes db) = ApiSuccess 200 ''Negotiation rejected''
       \<and> map_option neg_status (find_negotiation n (snd (rejectNegotiation now n notes db))) =
           Some ''REJECTED''
       \<and> loads (snd (rejectNegotiation now n notes db)) = loads db"
proof -
  have "find (\<lambda>r. neg_id r = n) (negotiations db) = Some g"
    using assms by (simp add: find_negotiation_def)
  then show ?thesis
    using assms
    by (simp add: rejectNegotiation_def update_negotiation_found find_negotiation_def
        find_update_rows)
qed

theorem rejectNegotiation_ignores_status_witness:
  "find_negotiation ''N1''
     ((sample_db ''RATE_APPROVED'')\<lparr>negotiations := [sample_negotiation ''ACCEPTED'']\<rparr>) =
     Some (sample_negotiation ''ACCEPTED'')
   \<and> fst (rejectNegotiation 9 ''N1'' None
       ((sample_db ''RATE_APPROVED'')\<lparr>negotiations := [sample_negotiation ''ACCEPTED'']\<rparr>)) =
       ApiSuccess 200 ''Negotiation rejected''
   \<and> map_option neg_status (find_negotiation ''N1'' (snd (rejectNegotiation 9 ''N1'' None
       ((sample_db ''RATE_APPROVED'')\<lparr>negotiations := [sample_negotiation ''ACCEPTED'']\<rparr>)))) =
       Some ''REJECTED''"
proof -
  have a: "find_negotiation ''N1''
      ((sample_db ''RATE_APPROVED'')\<lparr>negotiations := [sample_negotiation ''ACCEPTED'']\<rparr>) =
      Some (sample_negotiation ''ACCEPTED'')"
    by (simp add: find_negotiation_def sample_negotiation_def)
  from rejectNegotiation_ignores_status[OF a, of 9 None] a
  show ?thesis by simp
qed

text \<open>The sibling operation has the guard, and sets the agreed rate on the load.\<close>

lemma acceptNegotiation_guard:
  assumes "find_negotiation n db = Some g"
      and "neg_status g \<noteq> ''PENDING''" and "neg_status g \<noteq> ''COUNTER_OFFERED''"
  shows "acceptNegotiation now n db = (ApiError 400 ''Negotiation already resolved'', db)"
  using assms by (simp add: acceptNegotiation_def)

lemma acceptNegotiation_sets_rate:
  assumes "find_negotiation n db = Some g" and "find_load (neg_loadId g) db = Some l"
      and "neg_status g = ''PENDING'' \<or> neg_status g = ''COUNTER_OFFERED''"
  shows "find_load (neg_loadId g) (snd (acceptNegotiation now n db)) =
           Some (l\<lparr>load_status := ''RATE_APPROVED'',
                   shipperRate := (case counterRate g of Some c \<Rightarrow> Some c | None \<Rightarrow> proposedRate g),
                   approvedNegotiationId := Some n\<rparr>)"
proof -
  have "find (\<lambda>r. load_id r = neg_loadId g) (loads db) = Some l"
    using assms(2) by (simp add: find_load_def)
  then show ?thesis
    using assms
    by (auto simp add: acceptNegotiation_def update_negotiation_found update_load_found
        agreedRate_def find_load_def find_update_rows)
qed

section \<open>Driver answers to an assignment\<close>

text \<open>
  Claim C7. The claim does not hold of the code: accepting looks at the accepted
  timestamp alone, so an assignment the driver has already rejected is accepted all the
  same, and the load is moved to ACCEPTED.
\<close>

theorem acceptAssignment_ignores_rejection:
  assumes "find_assignment a db = Some asg" and "asg_driverId asg = user_id u"
      and "acceptedAt asg = None" and "find_load (asg_loadId asg) db = Some l"
  shows "fst (acceptAssignment u now a db) = ApiSuccess 200 ''Assignment accepted''
       \<and> map_option load_status (find_load (asg_loadId asg) (snd (acceptAssignment u now a db))) =
           Some ''ACCEPTED''"
proof -
  have "find (\<lambda>r. load_id r = asg_loadId asg) (loads db) = Some l"
    using assms(4) by (simp add: find_load_def)
  then show ?thesis
    using assms
    by (simp add: acceptAssignment_def update_assignment_found update_load_found
        add_history_def find_load_def find_update_rows)
qed

theorem acceptAssignment_ignores_rejection_witness:
  "find_assignment ''A1''
      ((sample_db ''SCHEDULED'')\<lparr>assignments := [sample_assignment None (Some 3)]\<rparr>) =
      Some (sample_assignment None (Some 3))
   \<and> rejectedAt (sample_assignment None (Some 3)) = Some 3
   \<and> fst (acceptAssignment driver_d1 7 ''A1''
       ((sample_db ''SCHEDULED'')\<lparr>assignments := [sample_assignment None (Some 3)]\<rparr>)) =
       ApiSuccess 200 ''Assignment accepted''
   \<and> map_option load_status (find_load ''L1'' (snd (acceptAssignment driver_d1 7 ''A1''
       ((sample_db ''SCHEDULED'')\<lparr>assignments := [sample_assignment None (Some 3)]\<rparr>)))) =
       Some ''ACCEPTED''"
proof -
  let ?db = "(sample_db ''SCHEDULED'')\<lparr>assignments := [sample_assignment None (Some 3)]\<rparr>"
  have a: "find_assignment ''A1'' ?db = Some (sample_assignment None (Some 3))"
    by (simp add: find_assignment_def sample_assignment_def)
  have b: "asg_driverId (sample_assignment None (Some 3)) = user_id driver_d1"
    by (simp add: sample_assignment_def driver_d1_def)
  have c: "acceptedAt (sample_assignment None (Some 3)) = None"
    by (simp add: sample_assignment_def)
  have d: "find_load (asg_loadId (sample_assignment None (Some 3))) ?db =
      Some (sample_load ''SCHEDULED'')"
    by (simp add: sample_load_found sample_assignment_def)
  have e: "asg_loadId (sample_assignment None (Some 3)) = ''L1''"
    and f: "rejectedAt (sample_assignment None (Some 3)) = Some 3"
    by (simp_all add: sample_assignment_def)
  from acceptAssignment_ignores_rejection[OF a b c d, of 7] a e f
  show ?thesis by simp
qed

text \<open>Rejecting looks at the rejected timestamp alone, in the same way.\<close>

lemma rejectAssignment_ignores_acceptance:
  assumes "find_assignment a db = Some asg" and "asg_driverId asg = user_id u"
      and "rejectedAt asg = None" and "find_load (asg_loadId asg) db = Some l"
  shows "fst (rejectAssignment u now a reason db) = ApiSuccess 200 ''Assignment rejected''
       \<and> map_option load_status
           (find_load (asg_loadId asg) (snd (rejectAssignment u now a reason db))) =
           Some ''SCHEDULED''"
proof -
  have "find (\<lambda>r. load_id r = asg_loadId asg) (loads db) = Some l"
    using assms(4) by (simp add: find_load_def)
  then show ?thesis
    using assms
    by (simp add: rejectAssignment_def update_assignment_found update_load_found
        add_history_def find_load_def find_update_rows)
qed

section \<open>Proof of delivery\<close>

lemma upload_photos_loads:
  "upload_photos u lid pid k ps db = (r, db') \<Longrightarrow> loads db' = loads db"
  by (induction ps arbitrary: k db)
     (auto simp: add_fileUpload_def Let_def split: option.splits sum.splits)

lemma submitPOD_success_only:
  assumes "is_success (fst (submitPOD u new_id loadId notes signature photos db))"
  shows "(\<exists>l. find_load loadId db = Some l
              \<and> (load_status l = ''DELIVERED'' \<or> load_status l = ''AT_DELIVERY''))
       \<and> (\<exists>a \<in> set (assignments db). asg_loadId a = loadId \<and> asg_driverId a = user_id u)
       \<and> map_option load_status
            (find_load loadId (snd (submitPOD u new_id loadId notes signature photos db))) =
            Some ''POD_SUBMITTED''"
proof -
  from assms obtain l where l: "find_load loadId db = Some l"
    by (auto simp: submitPOD_def split: option.splits)
  from assms l have asg: "filter (\<lambda>a. asg_loadId a = loadId \<and> asg_driverId a = user_id u)
      (assignments db) \<noteq> []"
    by (auto simp: submitPOD_def split: if_splits)
  from assms l asg have st: "load_status l = ''DELIVERED'' \<or> load_status l = ''AT_DELIVERY''"
    by (auto simp: submitPOD_def split: if_splits)
  from assms l asg st obtain sig url where sig: "signature = Some sig"
      "validateImageFile sig = None" "upload sig = Inr url"
    by (auto simp: submitPOD_def split: option.splits sum.splits if_splits)
  define db2 where "db2 = (add_fileUpload u url ''POD_SIGNATURE'' loadId db)
      \<lparr>podDocuments := podDocuments (add_fileUpload u url ''POD_SIGNATURE'' loadId db) @
         [\<lparr>pod_id = new_id, pod_loadId = loadId, pod_driverId = user_id u, signatureImage = url,
           pod_notes = notes, verifiedAt = None, verifiedById = None\<rparr>]\<rparr>"
  obtain e db3 where ph: "upload_photos u loadId new_id 0 photos db2 = (e, db3)"
    by (cases "upload_photos u loadId new_id 0 photos db2")
  have loads3: "loads db3 = loads db"
    using upload_photos_loads[OF ph] by (simp add: db2_def add_fileUpload_def)
  then have f3: "find_load loadId db3 = Some l"
    using l by (simp add: find_load_def)
  from assms l asg st sig ph have e: "e = None"
    by (cases e) (auto simp: submitPOD_def Let_def db2_def)
  have fl: "find (\<lambda>r. load_id r = loadId) (loads db3) = Some l"
    using f3 by (simp add: find_load_def)
  have "map_option load_status
      (find_load loadId (snd (submitPOD u new_id loadId notes signature photos db))) =
      Some ''POD_SUBMITTED''"
    using l asg st sig ph e fl
    by (auto simp add: submitPOD_def Let_def db2_def[symmetric] update_load_found[OF f3]
        add_history_def find_load_def find_update_rows)
  moreover from asg
  have "\<exists>a \<in> set (assignments db). asg_loadId a = loadId \<and> asg_driverId a = user_id u"
    by (auto simp: filter_empty_conv)
  ultimately show ?thesis using l st by blast
qed

lemma submitPOD_not_assigned:
  assumes "find_load loadId db = Some l"
      and "\<forall>a \<in> set (assignments db). \<not> (asg_loadId a = loadId \<and> asg_driverId a = user_id u)"
  shows "submitPOD u new_id loadId notes signature photos db =
           (ApiError 403 ''You are not assigned to this load'', db)"
  using assms by (simp add: submitPOD_def filter_empty_conv)

text \<open>
  The two guards as the code has them: a submission that succeeds was made on a load
  in DELIVERED or AT_DELIVERY by a driver with an assignment row on that load, and
  leaves the load in POD_SUBMITTED; a driver with no assignment row on an existing load
  is answered 403 and the database stays as it was.
\<close>

lemma submitPOD_checks:
  "(is_success (fst (submitPOD u new_id loadId notes signature photos db)) \<longrightarrow>
      (\<exists>l. find_load loadId db = Some l
            \<and> (load_status l = ''DELIVERED'' \<or> load_status l = ''AT_DELIVERY''))
      \<and> (\<exists>a \<in> set (assignments db). asg_loadId a = loadId \<and> asg_driverId a = user_id u)
      \<and> map_option load_status
           (find_load loadId (snd (submitPOD u new_id loadId notes signature photos db))) =
           Some ''POD_SUBMITTED'')
   \<and> (find_load loadId db \<noteq> None
        \<and> (\<forall>a \<in> set (assignments db). \<not> (asg_loadId a = loadId \<and> asg_driverId a = user_id u)) \<longrightarrow>
      submitPOD u new_id loadId notes signature photos db =
        (ApiError 403 ''You are not assigned to this load'', db))"
proof -
  have only: "is_success (fst (submitPOD u new_id loadId notes signature photos db)) \<longrightarrow>
      (\<exists>l. find_load loadId db = Some l
            \<and> (load_status l = ''DELIVERED'' \<or> load_status l = ''AT_DELIVERY''))
      \<and> (\<exists>a \<in> set (assignments db). asg_loadId a = loadId \<and> asg_driverId a = user_id u)
      \<and> map_option load_status
           (find_load loadId (snd (submitPOD u new_id loadId notes signature photos db))) =
           Some ''POD_SUBMITTED''"
    using submitPOD_success_only by blast
  have denied: "find_load loadId db \<noteq> None
        \<and> (\<forall>a \<in> set (assignments db). \<not> (asg_loadId a = loadId \<and> asg_driverId a = user_id u)) \<longrightarrow>
      submitPOD u new_id loadId notes signature photos db =
        (ApiError 403 ''You are not assigned to this load'', db)"
    using submitPOD_not_assigned by blast
  from only denied show ?thesis by (rule conjI)
qed

lemma upload_photos_valid:
  "\<forall>p \<in> set ps. validateImageFile p = None \<and> file_size p \<le> maxFileSize \<Longrightarrow>
   fst (upload_photos u lid pid k ps db) = None
   \<and> loads (snd (upload_photos u lid pid k ps db)) = loads db
   \<and> podDocuments (snd (upload_photos u lid pid k ps db)) = podDocuments db"
  by (induction ps arbitrary: k db) (auto simp: upload_def add_fileUpload_def Let_def)

text \<open>
  Claim C8. The claim does not hold of the code: \<^verbatim>\<open>submitPOD\<close> asks for an assignment
  row of the calling driver on the load and looks at neither timestamp of the row. Any
  such row will do: on a load in DELIVERED or AT_DELIVERY, with a valid signature image
  and valid photos, the driver is answered 201, a POD document in their name is
  stored and the load is moved to POD_SUBMITTED. So a driver who rejected the
  assignment, and in whose place another driver accepted and delivered the load, is
  not refused. The settlement methods, in contrast, take an assignment to be held
  only when its accepted time is set and its rejected time is not
  (\<open>accepted_assignment\<close>).
\<close>

theorem submitPOD_ignores_rejection:
  assumes "find_load loadId db = Some l"
      and "load_status l = ''DELIVERED'' \<or> load_status l = ''AT_DELIVERY''"
      and "a \<in> set (assignments db)" and "asg_loadId a = loadId"
      and "asg_driverId a = user_id u"
      and "validateImageFile sig = None" and "file_size sig \<le> maxFileSize"
      and "\<forall>p \<in> set photos. validateImageFile p = None \<and> file_size p \<le> maxFileSize"
  shows "fst (submitPOD u new_id loadId notes (Some sig) photos db) =
           ApiSuccess 201 ''POD submitted successfully''
       \<and> podDocuments (snd (submitPOD u new_id loadId notes (Some sig) photos db)) =
           podDocuments db @
             [\<lparr>pod_id = new_id, pod_loadId = loadId, pod_driverId = user_id u,
               signatureImage = stored_url sig, pod_notes = notes, verifiedAt = None,
               verifiedById = None\<rparr>]
       \<and> map_option load_status
           (find_load loadId (snd (submitPOD u new_id loadId notes (Some sig) photos db))) =
           Some ''POD_SUBMITTED''"
proof -
  have asg: "filter (\<lambda>a. asg_loadId a = loadId \<and> asg_driverId a = user_id u)
      (assignments db) \<noteq> []"
    using assms(3-5) by (auto simp: filter_empty_conv)
  have st: "\<not> (load_status l \<noteq> ''DELIVERED'' \<and> load_status l \<noteq> ''AT_DELIVERY'')"
    using assms(2) by blast
  have up: "upload sig = Inr (stored_url sig)"
    using assms(7) by (simp add: upload_def)
  define db2 where "db2 = (add_fileUpload u (stored_url sig) ''POD_SIGNATURE'' loadId db)
      \<lparr>podDocuments := podDocuments (add_fileUpload u (stored_url sig) ''POD_SIGNATURE'' loadId db) @
         [\<lparr>pod_id = new_id, pod_loadId = loadId, pod_driverId = user_id u,
           signatureImage = stored_url sig, pod_notes = notes, verifiedAt = None,
           verifiedById = None\<rparr>]\<rparr>"
  obtain db3 where ph: "upload_photos u loadId new_id 0 photos db2 = (None, db3)"
      and loads3: "loads db3 = loads db2" and pods3: "podDocuments db3 = podDocuments db2"
    using upload_photos_valid[OF assms(8), of u loadId new_id 0 db2]
    by (cases "upload_photos u loadId new_id 0 photos db2") auto
  have f3: "find_load loadId db3 = Some l"
    using assms(1) loads3 by (simp add: find_load_def db2_def add_fileUpload_def)
  have fl: "find (\<lambda>r. load_id r = loadId) (loads db3) = Some l"
    using f3 by (simp add: find_load_def)
  have run: "submitPOD u new_id loadId notes (Some sig) photos db =
      (ApiSuccess 201 ''POD submitted successfully'',
       add_history loadId (load_status l) ''POD_SUBMITTED'' (user_id u) ''DRIVER''
         (Some ''POD submitted by driver'')
         (db3\<lparr>loads := update_rows (\<lambda>r. load_id r = loadId)
                  (\<lambda>r. r\<lparr>load_status := ''POD_SUBMITTED''\<rparr>) (loads db3)\<rparr>))"
    using assms(1,6) asg st up ph
    by (simp add: submitPOD_def Let_def db2_def[symmetric] update_load_found[OF f3])
  have "podDocuments (snd (submitPOD u new_id loadId notes (Some sig) photos db)) =
      podDocuments db @
        [\<lparr>pod_id = new_id, pod_loadId = loadId, pod_driverId = user_id u,
          signatureImage = stored_url sig, pod_notes = notes, verifiedAt = None,
          verifiedById = None\<rparr>]"
    using pods3 by (simp add: run add_history_def db2_def add_fileUpload_def)
  moreover have "map_option load_status
      (find_load loadId (snd (submitPOD u new_id loadId notes (Some sig) photos db))) =
      Some ''POD_SUBMITTED''"
    using fl by (simp add: run add_history_def find_load_def find_update_rows)
  ultimately show ?thesis by (simp add: run)
qed

theorem submitPOD_ignores_rejection_witness:
  "map (\<lambda>a. (asg_loadId a, asg_driverId a, acceptedAt a, rejectedAt a))
      (assignments reassigned_db) =
      [(''L1'', ''D1'', None, Some 3), (''L1'', ''D2'', Some 5, None)]
   \<and> map_option load_status (find_load ''L1'' reassigned_db) = Some ''DELIVERED''
   \<and> fst (submitPOD driver_d1 ''P1'' ''L1'' None (Some sample_signature) [sample_signature]
       reassigned_db) = ApiSuccess 201 ''POD submitted successfully''
   \<and> map (\<lambda>d. (pod_id d, pod_loadId d, pod_driverId d))
       (podDocuments (snd (submitPOD driver_d1 ''P1'' ''L1'' None (Some sample_signature)
          [sample_signature] reassigned_db))) = [(''P1'', ''L1'', ''D1'')]
   \<and> map_option load_status (find_load ''L1''
        (snd (submitPOD driver_d1 ''P1'' ''L1'' None (Some sample_signature) [sample_signature]
          reassigned_db))) = Some ''POD_SUBMITTED''"
proof -
  have rows: "map (\<lambda>a. (asg_loadId a, asg_driverId a, acceptedAt a, rejectedAt a))
      (assignments reassigned_db) =
      [(''L1'', ''D1'', None, Some 3), (''L1'', ''D2'', Some 5, None)]"
    by (simp add: reassigned_db_def sample_assignment_def)
  have found: "find_load ''L1'' reassigned_db = Some (sample_load ''DELIVERED'')"
    by (simp add: reassigned_db_def sample_load_found)
  have st: "load_status (sample_load ''DELIVERED'') = ''DELIVERED''
      \<or> load_status (sample_load ''DELIVERED'') = ''AT_DELIVERY''"
    by (simp add: sample_load_def)
  have row: "(sample_assignment None (Some 3))\<lparr>rejectionReason := Some ''truck in the shop''\<rparr>
      \<in> set (assignments reassigned_db)"
    by (simp add: reassigned_db_def)
  have mine: "asg_loadId ((sample_assignment None (Some 3))
        \<lparr>rejectionReason := Some ''truck in the shop''\<rparr>) = ''L1''"
      "asg_driverId ((sample_assignment None (Some 3))
        \<lparr>rejectionReason := Some ''truck in the shop''\<rparr>) = user_id driver_d1"
    by (simp_all add: sample_assignment_def driver_d1_def)
  have sig: "validateImageFile sample_signature = None" "file_size sample_signature \<le> maxFileSize"
    by (simp_all add: validateImageFile_def sample_signature_def maxFileSize_def)
  have photos: "\<forall>p \<in> set [sample_signature].
      validateImageFile p = None \<and> file_size p \<le> maxFileSize"
    using sig by simp
  have empty: "podDocuments reassigned_db = []"
    by (simp add: reassigned_db_def sample_db_def)
  from submitPOD_ignores_rejection[OF found st row mine sig photos, of "''P1''" None]
    rows found empty
  show ?thesis by (simp add: sample_load_def driver_d1_def)
qed

text \<open>
  Claim C10. The first \<^verbatim>\<open>verifyPOD\<close> on a POD document stamps the verified time
  whether the verdict approves (load to COMPLETED) or rejects (load to POD_PENDING);
  any further \<^verbatim>\<open>verifyPOD\<close> on that document, whoever calls it and whatever the verdict,
  is answered 400 \<^verbatim>\<open>POD already verified\<close> and changes nothing.
\<close>

theorem verifyPOD_only_once:
  assumes "find_pod p db = Some pod" and "find_load (pod_loadId pod) db = Some l"
      and "verifiedAt pod = None"
  shows "fst (verifyPOD u now p approved notes db) = ApiSuccess 200 ''POD verified successfully''
       \<and> map_option verifiedAt (find_pod p (snd (verifyPOD u now p approved notes db))) =
           Some (Some now)
       \<and> map_option load_status
           (find_load (pod_loadId pod) (snd (verifyPOD u now p approved notes db))) =
           Some (if approved then ''COMPLETED'' else ''POD_PENDING'')
       \<and> verifyPOD u' now' p approved' notes' (snd (verifyPOD u now p approved notes db)) =
           (ApiError 400 ''POD already verified'', snd (verifyPOD u now p approved notes db))"
proof -
  let ?db' = "snd (verifyPOD u now p approved notes db)"
  have fp: "find (\<lambda>r. pod_id r = p) (podDocuments db) = Some pod"
    using assms(1) by (simp add: find_pod_def)
  have fl: "find (\<lambda>r. load_id r = pod_loadId pod) (loads db) = Some l"
    using assms(2) by (simp add: find_load_def)
  have first: "fst (verifyPOD u now p approved notes db) =
      ApiSuccess 200 ''POD verified successfully''"
    using assms by (simp add: verifyPOD_def update_pod_found update_load_found Let_def)
  have stamped: "map_option verifiedAt (find_pod p ?db') = Some (Some now)"
    using assms fp
    by (simp add: verifyPOD_def update_pod_found update_load_found Let_def add_history_def
        find_pod_def find_update_rows)
  have moved: "map_option load_status (find_load (pod_loadId pod) ?db') =
      Some (if approved then ''COMPLETED'' else ''POD_PENDING'')"
    using assms fl
    by (simp add: verifyPOD_def update_pod_found update_load_found Let_def add_history_def
        find_load_def find_update_rows)
  from stamped obtain pod' where "find_pod p ?db' = Some pod'" and "verifiedAt pod' = Some now"
    by auto
  then have again: "verifyPOD u' now' p approved' notes' ?db' =
      (ApiError 400 ''POD already verified'', ?db')"
    by (simp add: verifyPOD_def)
  from first stamped moved again show ?thesis by blast
qed

theorem verifyPOD_only_once_witness:
  "find_pod ''P1'' ((sample_db ''POD_SUBMITTED'')\<lparr>podDocuments := [sample_pod]\<rparr>) = Some sample_pod
   \<and> verifiedAt sample_pod = None
   \<and> map_option verifiedAt (find_pod ''P1'' (snd (verifyPOD dispatcher 40 ''P1'' False None
        ((sample_db ''POD_SUBMITTED'')\<lparr>podDocuments := [sample_pod]\<rparr>)))) = Some (Some 40)
   \<and> map_option load_status (find_load ''L1'' (snd (verifyPOD dispatcher 40 ''P1'' False None
        ((sample_db ''POD_SUBMITTED'')\<lparr>podDocuments := [sample_pod]\<rparr>)))) = Some ''POD_PENDING''
   \<and> verifyPOD dispatcher 50 ''P1'' True None (snd (verifyPOD dispatcher 40 ''P1'' False None
        ((sample_db ''POD_SUBMITTED'')\<lparr>podDocuments := [sample_pod]\<rparr>))) =
       (ApiError 400 ''POD already verified'', snd (verifyPOD dispatcher 40 ''P1'' False None
        ((sample_db ''POD_SUBMITTED'')\<lparr>podDocuments := [sample_pod]\<rparr>)))"
proof -
  let ?db = "(sample_db ''POD_SUBMITTED'')\<lparr>podDocuments := [sample_pod]\<rparr>"
  have a: "find_pod ''P1'' ?db = Some sample_pod"
    by (simp add: find_pod_def sample_pod_def)
  have b: "find_load (pod_loadId sample_pod) ?db = Some (sample_load ''POD_SUBMITTED'')"
    by (simp add: sample_load_found sample_pod_def)
  have c: "verifiedAt sample_pod = None" and d: "pod_loadId sample_pod = ''L1''"
    by (simp_all add: sample_pod_def)
  from verifyPOD_only_once[OF a b c, of dispatcher 40 False None dispatcher 50 True None] a c d
  show ?thesis by simp
qed

text \<open>The refusal depends on the stamp alone, in whatever state the database is.\<close>

lemma verifyPOD_refuses_verified:
  "find_pod p db = Some pod \<Longrightarrow> verifiedAt pod \<noteq> None \<Longrightarrow>
   verifyPOD u now p approved notes db = (ApiError 400 ''POD already verified'', db)"
  by (auto simp add: verifyPOD_def)

section \<open>The operations that do write the ledger\<close>

text \<open>
  Every other operation that sets a load's status appends one history row when it
  succeeds; the two negotiation operations are the ones that do not.
\<close>

lemma upload_photos_history:
  "upload_photos u lid pid k ps db = (r, db') \<Longrightarrow> history db' = history db"
  by (induction ps arbitrary: k db)
     (auto simp: add_fileUpload_def Let_def split: option.splits sum.splits)

lemma history_row_written:
  "is_success (fst (submitLoad u i db)) \<Longrightarrow>
     history (snd (submitLoad u i db)) = history db @
       [\<lparr>hist_loadId = i, fromStatus = ''DRAFT'', toStatus = ''PENDING_REVIEW'',
         changedById = user_id u, changedByType = user_type u,
         hist_notes = Some ''Load submitted for review''\<rparr>]"
  "is_success (fst (approveLoad u i pay notes db)) \<Longrightarrow>
     history (snd (approveLoad u i pay notes db)) = history db @
       [\<lparr>hist_loadId = i, fromStatus = ''RATE_APPROVED'', toStatus = ''SCHEDULED'',
         changedById = user_id u, changedByType = user_type u,
         hist_notes = or_else notes (Some ''Load approved and scheduled'')\<rparr>]"
  "is_success (fst (assignLoad u new_id i d notes db)) \<Longrightarrow>
     \<exists>note. history (snd (assignLoad u new_id i d notes db)) = history db @
       [\<lparr>hist_loadId = i, fromStatus = ''SCHEDULED'', toStatus = ''ASSIGNED'',
         changedById = user_id u, changedByType = user_type u, hist_notes = note\<rparr>]"
  "is_success (fst (updateLoadStatus u now i status notes db)) \<Longrightarrow>
     \<exists>from. history (snd (updateLoadStatus u now i status notes db)) = history db @
       [\<lparr>hist_loadId = i, fromStatus = from, toStatus = status,
         changedById = user_id u, changedByType = user_type u, hist_notes = notes\<rparr>]"
  "is_success (fst (acceptAssignment u now a db)) \<Longrightarrow>
     \<exists>lid. history (snd (acceptAssignment u now a db)) = history db @
       [\<lparr>hist_loadId = lid, fromStatus = ''ASSIGNED'', toStatus = ''ACCEPTED'',
         changedById = user_id u, changedByType = ''DRIVER'',
         hist_notes = Some ''Driver accepted assignment''\<rparr>]"
  "is_success (fst (rejectAssignment u now a reason db)) \<Longrightarrow>
     \<exists>lid. history (snd (rejectAssignment u now a reason db)) = history db @
       [\<lparr>hist_loadId = lid, fromStatus = ''ASSIGNED'', toStatus = ''SCHEDULED'',
         changedById = user_id u, changedByType = ''DRIVER'',
         hist_notes = Some (''Driver rejected assignment: '' @ print_field reason)\<rparr>]"
  "is_success (fst (verifyPOD u now p approved notes db)) \<Longrightarrow>
     \<exists>lid from note. history (snd (verifyPOD u now p approved notes db)) = history db @
       [\<lparr>hist_loadId = lid, fromStatus = from,
         toStatus = (if approved then ''COMPLETED'' else ''POD_PENDING''),
         changedById = user_id u, changedByType = ''INTERNAL_USER'', hist_notes = note\<rparr>]"
  by (auto simp: submitLoad_def approveLoad_def assignLoad_def updateLoadStatus_def
      acceptAssignment_def rejectAssignment_def verifyPOD_def Let_def add_history_def
      update_load_def update_assignment_def update_pod_def
      split: option.splits if_splits)

lemma submitPOD_history_row:
  assumes "is_success (fst (submitPOD u new_id loadId notes signature photos db))"
  shows "\<exists>from. history (snd (submitPOD u new_id loadId notes signature photos db)) =
           history db @
           [\<lparr>hist_loadId = loadId, fromStatus = from, toStatus = ''POD_SUBMITTED'',
             changedById = user_id u, changedByType = ''DRIVER'',
             hist_notes = Some ''POD submitted by driver''\<rparr>]"
proof -
  from assms obtain l where l: "find_load loadId db = Some l"
    by (auto simp: submitPOD_def split: option.splits)
  from assms l have asg: "filter (\<lambda>a. asg_loadId a = loadId \<and> asg_driverId a = user_id u)
      (assignments db) \<noteq> []"
    by (auto simp: submitPOD_def split: if_splits)
  from assms l asg
  have st: "\<not> (load_status l \<noteq> ''DELIVERED'' \<and> load_status l \<noteq> ''AT_DELIVERY'')"
    by (auto simp: submitPOD_def split: if_splits)
  from assms l asg st obtain sig url where sig: "signature = Some sig"
      "validateImageFile sig = None" "upload sig = Inr url"
    by (auto simp: submitPOD_def split: option.splits sum.splits if_splits)
  define db2 where "db2 = (add_fileUpload u url ''POD_SIGNATURE'' loadId db)
      \<lparr>podDocuments := podDocuments (add_fileUpload u url ''POD_SIGNATURE'' loadId db) @
         [\<lparr>pod_id = new_id, pod_loadId = loadId, pod_driverId = user_id u, signatureImage = url,
           pod_notes = notes, verifiedAt = None, verifiedById = None\<rparr>]\<rparr>"
  obtain e db3 where ph: "upload_photos u loadId new_id 0 photos db2 = (e, db3)"
    by (cases "upload_photos u loadId new_id 0 photos db2")
  have h3: "history db3 = history db"
    using upload_photos_history[OF ph] by (simp add: db2_def add_fileUpload_def)
  have "loads db3 = loads db"
    using upload_photos_loads[OF ph] by (simp add: db2_def add_fileUpload_def)
  then have f3: "find_load loadId db3 = Some l"
    using l by (simp add: find_load_def)
  from assms l asg st sig ph have e: "e = None"
    by (cases e) (auto simp: submitPOD_def Let_def db2_def)
  have "history (snd (submitPOD u new_id loadId notes signature photos db)) =
      history db @
      [\<lparr>hist_loadId = loadId, fromStatus = load_status l, toStatus = ''POD_SUBMITTED'',
        changedById = user_id u, changedByType = ''DRIVER'',
        hist_notes = Some ''POD submitted by driver''\<rparr>]"
    using l asg st sig ph e h3
    by (simp add: submitPOD_def Let_def db2_def[symmetric] update_load_found[OF f3]
        add_history_def)
  then show ?thesis by blast
qed

text \<open>A target that the table lists for the current status is applied.\<close>

lemma updateLoadStatus_accepts_listed:
  assumes "find_load i db = Some l"
      and "map_of allowedTransitions (load_status l) = Some ts" and "status \<in> set ts"
  shows "fst (updateLoadStatus u now i status notes db) = ApiSuccess 200 ''Load status updated''
       \<and> map_option load_status (find_load i (snd (updateLoadStatus u now i status notes db))) =
           Some status"
proof -
  have "find (\<lambda>r. load_id r = i) (loads db) = Some l"
    using assms(1) by (simp add: find_load_def)
  then show ?thesis
    using assms
    by (simp add: updateLoadStatus_def transition_refused_def update_load_found Let_def
        add_history_def find_load_def find_update_rows updateData_def)
qed

section \<open>Vehicle assignments\<close>

lemma unassign_current_same:
  "filter (\<lambda>a. va_vehicleId a = v \<and> isCurrentlyAssigned a) (unassign_current now v rows) = []"
  by (induction rows) (auto simp: unassign_current_def update_rows_def)

lemma unassign_current_other:
  "w \<noteq> v \<Longrightarrow>
   filter (\<lambda>a. va_vehicleId a = w \<and> isCurrentlyAssigned a) (unassign_current now v rows) =
   filter (\<lambda>a. va_vehicleId a = w \<and> isCurrentlyAssigned a) rows"
  by (induction rows) (auto simp: unassign_current_def update_rows_def)

lemma assignVehicle_current:
  "current_assignments w (snd (assignVehicle new_id now v d notes db)) =
     (if is_success (fst (assignVehicle new_id now v d notes db)) \<and> w = v
      then [\<lparr>va_id = new_id, va_vehicleId = v, va_driverId = d, va_notes = notes,
             isCurrentlyAssigned = True, unassignedAt = None\<rparr>]
      else current_assignments w db)"
  by (auto simp: assignVehicle_def current_assignments_def unassign_current_same
      unassign_current_other split: option.splits)

lemma unassignVehicle_current:
  "current_assignments w (snd (unassignVehicle now v db)) =
     (if w = v then [] else current_assignments w db)"
  by (auto simp: unassignVehicle_def current_assignments_def unassign_current_same
      unassign_current_other)

lemma fleet_step_invariant:
  assumes "\<forall>w. length (current_assignments w db) \<le> 1"
  shows "\<forall>w. length (current_assignments w (fleet_step c db)) \<le> 1"
  using assms by (cases c) (simp_all add: assignVehicle_current unassignVehicle_current)

lemma fleet_run_invariant:
  "\<forall>w. length (current_assignments w db) \<le> 1 \<Longrightarrow>
   \<forall>w. length (current_assignments w (fleet_run calls db)) \<le> 1"
  unfolding fleet_run_def
proof (induction calls arbitrary: db)
  case Nil
  then show ?case by simp
next
  case (Cons c calls)
  from fleet_step_invariant[OF Cons.prems]
  have "\<forall>w. length (current_assignments w (fleet_step c db)) \<le> 1" .
  from Cons.IH[OF this] show ?case by simp
qed

text \<open>
  Claim C6. From a table in which no vehicle has more than one row with
  \<^verbatim>\<open>isCurrentlyAssigned\<close> set (the empty table is one), any run of assign and unassign
  calls, made one after the other, leaves at most one such row for every vehicle. A
  successful assign on any table whatever leaves the new row as the only current row of
  its vehicle: the rows that were current are switched off first.
\<close>

theorem one_current_assignment_per_vehicle:
  assumes "\<forall>w. length (current_assignments w db) \<le> 1"
  shows "length (current_assignments v (fleet_run calls db)) \<le> 1
       \<and> (is_success (fst (assignVehicle new_id now v d notes db0)) \<longrightarrow>
            current_assignments v (snd (assignVehicle new_id now v d notes db0)) =
              [\<lparr>va_id = new_id, va_vehicleId = v, va_driverId = d, va_notes = notes,
                isCurrentlyAssigned = True, unassignedAt = None\<rparr>])"
  using fleet_run_invariant[OF assms, of calls] by (simp add: assignVehicle_current)

theorem one_current_assignment_per_vehicle_witness:
  "(\<forall>w. length (current_assignments w sample_fleet) \<le> 1)
   \<and> length (current_assignments ''V1'' (fleet_run sample_calls sample_fleet)) \<le> 1
   \<and> map (\<lambda>a. (va_id a, isCurrentlyAssigned a))
        (vehicleAssignments (fleet_run sample_calls sample_fleet)) =
        [(''VA1'', False), (''VA2'', False), (''VA3'', True)]
   \<and> is_success (fst (assignVehicle ''VA1'' 10 ''V1'' ''D1'' None sample_fleet))
   \<and> map va_id
        (current_assignments ''V1'' (snd (assignVehicle ''VA1'' 10 ''V1'' ''D1'' None sample_fleet)))
        = [''VA1'']"
proof -
  have a: "\<forall>w. length (current_assignments w sample_fleet) \<le> 1"
    by (simp add: current_assignments_def sample_fleet_def)
  have b: "map (\<lambda>a. (va_id a, isCurrentlyAssigned a))
        (vehicleAssignments (fleet_run sample_calls sample_fleet)) =
        [(''VA1'', False), (''VA2'', False), (''VA3'', True)]"
    by (simp add: fleet_run_def sample_calls_def sample_fleet_def assignVehicle_def
        unassignVehicle_def unassign_current_def update_rows_def)
  have c: "is_success (fst (assignVehicle ''VA1'' 10 ''V1'' ''D1'' None sample_fleet))"
    by (simp add: sample_fleet_def assignVehicle_def)
  from one_current_assignment_per_vehicle
         [OF a, of "''V1''" sample_calls "''VA1''" 10 "''D1''" None sample_fleet] a b c
  show ?thesis by simp
qed

section \<open>Login and lockout\<close>

lemma find_email_update_rows:
  "find (\<lambda>p. email p = m) rows = Some usr \<Longrightarrow> (\<And>r. email (f r) = email r) \<Longrightarrow>
   find (\<lambda>p. email p = m) (update_rows (\<lambda>p. p_id p = p_id usr) f rows) = Some (f usr)"
  by (induction rows) (auto simp: update_rows_def split: if_splits)

lemma failed_check:
  assumes "principal_of k mail db = Some p" and "\<not> is_locked now (lockedUntil p)"
      and "isActive p" and "client_ok k mail db" and "\<not> cmp pw (passwordHash p)"
  shows "fst (login k cmp now mail pw db) = ApiError 401 ''Invalid email or password''
       \<and> principal_of k mail (snd (login k cmp now mail pw db)) = Some (after_failure now p)
       \<and> client_ok k mail (snd (login k cmp now mail pw db))"
proof (cases k)
  case INTERNAL_USER
  with assms show ?thesis
    by (auto simp: loginInternalUser_def Let_def find_email_update_rows after_failure_def)
next
  case SHIPPER_USER
  with assms obtain usr where usr: "find (\<lambda>p. email p = toLowerCase mail) (shipperUsers db) = Some usr"
      "principal.truncate usr = p"
    by auto
  with assms SHIPPER_USER show ?thesis
    by (auto simp: loginShipperUser_def Let_def find_email_update_rows after_failure_def
        principal.truncate_def)
next
  case DRIVER
  with assms show ?thesis
    by (auto simp: loginDriver_def Let_def find_email_update_rows after_failure_def)
qed

lemma locked_login:
  assumes "principal_of k mail db = Some p" and "is_locked now (lockedUntil p)"
  shows "login k cmp now mail pw db = (ApiError 423 ''Account is locked. Please try again later.'', db)"
proof (cases k)
  case INTERNAL_USER
  with assms show ?thesis by (auto simp: loginInternalUser_def)
next
  case SHIPPER_USER
  with assms obtain usr where usr: "find (\<lambda>p. email p = toLowerCase mail) (shipperUsers db) = Some usr"
      "principal.truncate usr = p"
    by auto
  with assms SHIPPER_USER show ?thesis
    by (auto simp: loginShipperUser_def principal.truncate_def)
next
  case DRIVER
  with assms show ?thesis by (auto simp: loginDriver_def)
qed

lemma successful_login:
  assumes "is_success (fst (login k cmp now mail pw db))"
  shows "\<exists>q. principal_of k mail (snd (login k cmp now mail pw db)) = Some q
           \<and> failedLoginAttempts q = 0 \<and> lockedUntil q = None"
proof (cases k)
  case INTERNAL_USER
  with assms show ?thesis
    by (auto simp: loginInternalUser_def Let_def find_email_update_rows
        split: option.splits if_splits)
next
  case SHIPPER_USER
  with assms show ?thesis
    by (auto simp: loginShipperUser_def Let_def find_email_update_rows principal.truncate_def
        split: option.splits if_splits)
next
  case DRIVER
  with assms show ?thesis
    by (auto simp: loginDriver_def Let_def find_email_update_rows
        split: option.splits if_splits)
qed

lemma login_attempts_append:
  "login_attempts k cmp mail (xs @ ys) db = login_attempts k cmp mail ys (login_attempts k cmp mail xs db)"
  by (induction xs arbitrary: db) auto

lemma failures_below_five:
  assumes "principal_of k mail db = Some p" and "lockedUntil p = None" and "isActive p"
      and "client_ok k mail db" and "\<forall>(t, w) \<in> set tries. \<not> cmp w (passwordHash p)"
      and "failedLoginAttempts p + length tries < 5"
  shows "principal_of k mail (login_attempts k cmp mail tries db) =
           Some (p\<lparr>failedLoginAttempts := failedLoginAttempts p + length tries\<rparr>)
       \<and> client_ok k mail (login_attempts k cmp mail tries db)"
  using assms
proof (induction tries arbitrary: db p)
  case Nil
  then show ?case by simp
next
  case (Cons a tries)
  obtain t w where a: "a = (t, w)" by (cases a)
  let ?db = "snd (login k cmp t mail w db)"
  have step: "principal_of k mail ?db = Some (after_failure t p)" "client_ok k mail ?db"
    using failed_check[of k mail db p t cmp w] Cons.prems a by (auto simp: is_locked_def)
  have af: "after_failure t p = p\<lparr>failedLoginAttempts := failedLoginAttempts p + 1\<rparr>"
    using Cons.prems by (simp add: after_failure_def)
  have "principal_of k mail (login_attempts k cmp mail tries ?db) =
           Some ((after_failure t p)\<lparr>failedLoginAttempts :=
              failedLoginAttempts (after_failure t p) + length tries\<rparr>)
       \<and> client_ok k mail (login_attempts k cmp mail tries ?db)"
    using Cons.prems step af by (intro Cons.IH) auto
  then show ?case using a af by simp
qed

text \<open>
  Claim C9. For each of the three kinds of principal: on an active account with no
  failed attempts and no lock, five failed password checks in a row lock the account
  until 15 minutes (900000 ms) after the fifth, and the first four do not; while that
  time has not passed any login on the account, right password or wrong, is answered
  423 and changes nothing; and whenever a login succeeds the account is left with a
  failed-attempt count of zero and no lock.
\<close>

theorem lockout_after_five_failures:
  assumes "principal_of k mail db = Some p" and "failedLoginAttempts p = 0"
      and "lockedUntil p = None" and "isActive p" and "client_ok k mail db"
      and "length tries = 5" and "\<forall>(t, w) \<in> set tries. \<not> cmp w (passwordHash p)"
  shows "map_option lockedUntil (principal_of k mail (login_attempts k cmp mail (take 4 tries) db)) =
           Some None
       \<and> map_option lockedUntil (principal_of k mail (login_attempts k cmp mail tries db)) =
           Some (Some (fst (last tries) + 15 * 60 * 1000))
       \<and> (now < fst (last tries) + 15 * 60 * 1000 \<longrightarrow>
            login k cmp' now mail pw (login_attempts k cmp mail tries db) =
              (ApiError 423 ''Account is locked. Please try again later.'',
               login_attempts k cmp mail tries db))
       \<and> (is_success (fst (login k cmp' now' mail pw' db0)) \<longrightarrow>
            (\<exists>q. principal_of k mail (snd (login k cmp' now' mail pw' db0)) = Some q
                 \<and> failedLoginAttempts q = 0 \<and> lockedUntil q = None))"
proof -
  let ?four = "login_attempts k cmp mail (take 4 tries) db"
  let ?five = "login_attempts k cmp mail tries db"
  let ?p4 = "p\<lparr>failedLoginAttempts := 4\<rparr>"
  obtain t w where lst: "last tries = (t, w)" by (cases "last tries")
  have ne: "tries \<noteq> []" using assms(6) by auto
  have "butlast tries = take 4 tries"
    using assms(6) by (simp add: butlast_conv_take)
  with append_butlast_last_id[OF ne] lst have split: "take 4 tries @ [(t, w)] = tries"
    by simp
  have wrong4: "\<forall>(t, w) \<in> set (take 4 tries). \<not> cmp w (passwordHash p)"
    using assms(7) by (meson in_set_takeD)
  have wrong5: "\<not> cmp w (passwordHash p)"
    using assms(7) last_in_set[OF ne] lst by auto
  have four: "principal_of k mail ?four = Some ?p4" "client_ok k mail ?four"
    using failures_below_five[of k mail db p "take 4 tries" cmp] assms(1-6) wrong4 by simp_all
  have "login_attempts k cmp mail (take 4 tries @ [(t, w)]) db = snd (login k cmp t mail w ?four)"
    by (simp add: login_attempts_append)
  then have five: "?five = snd (login k cmp t mail w ?four)"
    using split by simp
  have "principal_of k mail (snd (login k cmp t mail w ?four)) = Some (after_failure t ?p4)"
    using failed_check[of k mail ?four ?p4 t cmp w] four assms(3,4) wrong5
    by (simp add: is_locked_def)
  then have locked: "principal_of k mail ?five =
      Some (p\<lparr>failedLoginAttempts := 5, lockedUntil := Some (t + 15 * 60 * 1000)\<rparr>)"
    using five by (simp add: after_failure_def lock_window_def)
  have a: "map_option lockedUntil (principal_of k mail ?four) = Some None"
    using four assms(3) by simp
  have b: "map_option lockedUntil (principal_of k mail ?five) =
      Some (Some (fst (last tries) + 15 * 60 * 1000))"
    using locked lst by simp
  have c: "now < fst (last tries) + 15 * 60 * 1000 \<longrightarrow>
      login k cmp' now mail pw ?five =
        (ApiError 423 ''Account is locked. Please try again later.'', ?five)"
    using locked_login[OF locked, of now cmp' pw] lst by (simp add: is_locked_def)
  have d: "is_success (fst (login k cmp' now' mail pw' db0)) \<longrightarrow>
      (\<exists>q. principal_of k mail (snd (login k cmp' now' mail pw' db0)) = Some q
           \<and> failedLoginAttempts q = 0 \<and> lockedUntil q = None)"
    using successful_login by blast
  from a b c d show ?thesis by blast
qed

theorem lockout_after_five_failures_witness:
  "principal_of DRIVER ''Ann@Example.com'' sample_auth = Some sample_principal
   \<and> length sample_tries = 5
   \<and> map_option lockedUntil (principal_of DRIVER ''Ann@Example.com''
        (login_attempts DRIVER (=) ''Ann@Example.com'' sample_tries sample_auth)) = Some (Some 905000)
   \<and> login DRIVER (=) 6000 ''Ann@Example.com'' ''secret''
        (login_attempts DRIVER (=) ''Ann@Example.com'' sample_tries sample_auth) =
        (ApiError 423 ''Account is locked. Please try again later.'',
         login_attempts DRIVER (=) ''Ann@Example.com'' sample_tries sample_auth)
   \<and> is_success (fst (login DRIVER (=) 905000 ''Ann@Example.com'' ''secret''
        (login_attempts DRIVER (=) ''Ann@Example.com'' sample_tries sample_auth)))
   \<and> map_option (\<lambda>q. (failedLoginAttempts q, lockedUntil q))
        (principal_of DRIVER ''Ann@Example.com'' (snd (login DRIVER (=) 905000 ''Ann@Example.com'' ''secret''
        (login_attempts DRIVER (=) ''Ann@Example.com'' sample_tries sample_auth)))) = Some (0, None)"
proof -
  let ?mail = "''Ann@Example.com''"
  let ?locked = "login_attempts DRIVER (=) ?mail sample_tries sample_auth"
  have lower: "toLowerCase ?mail = ''ann@example.com''"
    by (simp add: toLowerCase_def)
  have a: "principal_of DRIVER ?mail sample_auth = Some sample_principal"
    by (simp add: lower sample_auth_def sample_principal_def)
  have b: "failedLoginAttempts sample_principal = 0" "lockedUntil sample_principal = None"
    "isActive sample_principal" "client_ok DRIVER ?mail sample_auth"
    by (simp_all add: sample_principal_def)
  have c: "length sample_tries = 5" by (simp add: sample_tries_def)
  have d: "\<forall>(t, w) \<in> set sample_tries. \<not> (w = passwordHash sample_principal)"
    by (simp add: sample_tries_def sample_principal_def)
  have e: "fst (last sample_tries) = 5000" by (simp add: sample_tries_def)
  have ok: "is_success (fst (login DRIVER (=) 905000 ?mail ''secret'' ?locked))"
    by (simp add: sample_tries_def sample_auth_def sample_principal_def loginDriver_def lower
        is_locked_def lock_window_def update_rows_def Let_def)
  from lockout_after_five_failures
         [where cmp = "(=)" and cmp' = "(=)" and now = 6000 and pw = "''secret''"
            and now' = 905000 and pw' = "''secret''" and ?db0.0 = ?locked, OF a b c d]
    a c d e ok
  show ?thesis by auto
qed

section \<open>Settlement amounts\<close>

text \<open>
  What the two creation methods do when they are called on the controller object.
  The deduction rows carry the amounts of the request, none of them \<^verbatim>\<open>NaN\<close> or
  negative; the total is their sum from the left in double arithmetic, the net amount
  the double difference of gross amount and total, and it is not below zero. A call
  that does not succeed leaves the database as it was.
\<close>

lemma validatedDeductions_sound:
  "validatedDeductions sid ds acc = Inr (vs, t) \<Longrightarrow>
   t = foldl js_add acc (map parsed_amount ds)
   \<and> map ded_amount vs = map parsed_amount ds
   \<and> (\<forall>v \<in> set vs. \<not> invalid_amount (ded_amount v))"
proof (induction ds arbitrary: acc vs t)
  case Nil
  then show ?case by simp
next
  case (Cons d ds)
  then have ok: "\<not> invalid_amount (parsed_amount d)"
    by (auto simp: Let_def split: if_splits)
  with Cons.prems obtain vs' where
      rest: "validatedDeductions sid ds (js_add acc (parsed_amount d)) = Inr (vs', t)"
      and vs: "vs = \<lparr>ded_settlementId = sid, ded_description = in_description d,
          ded_amount = parsed_amount d,
          ded_category = template_str (or_else (in_category d) (Some ''OTHER''))\<rparr> # vs'"
    by (auto simp: Let_def split: sum.splits)
  from Cons.IH[OF rest] ok vs show ?case by simp
qed

lemma validatedDeductions_total:
  "\<forall>d \<in> set ds. \<not> invalid_amount (parsed_amount d) \<Longrightarrow>
   \<exists>vs t. validatedDeductions sid ds acc = Inr (vs, t)"
proof (induction ds arbitrary: acc)
  case Nil
  then show ?case by simp
next
  case (Cons d ds)
  then obtain vs t where
      "validatedDeductions sid ds (js_add acc (parsed_amount d)) = Inr (vs, t)"
    by (meson list.set_intros(2))
  with Cons.prems show ?case by (simp add: Let_def)
qed

lemma createSettlementFromLoad_success:
  assumes "is_success (fst (createSettlementFromLoad this year new_id loadId ds db))"
  shows "this = This_controller
       \<and> (\<exists>s vs l pay. snd (createSettlementFromLoad this year new_id loadId ds db) =
             db\<lparr>settlements := settlements db @ [s], deductions := deductions db @ vs\<rparr>
          \<and> find (\<lambda>l. load_id l = loadId) (st_loads db) = Some l
          \<and> driverPay l = Some pay
          \<and> grossAmount s = round64 pay
          \<and> settlementNumber s = generateSettlementNumber year db
          \<and> map ded_amount vs = map parsed_amount ds
          \<and> (\<forall>v \<in> set vs. \<not> invalid_amount (ded_amount v))
          \<and> totalDeductions s = foldl js_add (Num 0) (map ded_amount vs)
          \<and> netAmount s = js_sub (grossAmount s) (totalDeductions s)
          \<and> \<not> js_less (netAmount s) (Num 0))"
proof -
  from assms obtain l where l: "find (\<lambda>l. load_id l = loadId) (st_loads db) = Some l"
    by (auto simp: createSettlementFromLoad_def split: option.splits)
  from assms l have st: "load_status l = ''COMPLETED''"
    by (auto simp: createSettlementFromLoad_def split: if_splits)
  from assms l st obtain pay where pay: "driverPay l = Some pay"
    by (auto simp: createSettlementFromLoad_def split: option.splits)
  from assms l st pay obtain asg others where
      asg: "filter (\<lambda>a. asg_loadId a = loadId \<and> accepted_assignment a) (st_assignments db) =
          asg # others"
    by (auto simp: createSettlementFromLoad_def split: list.splits)
  from assms l st pay asg have
      fresh: "find (\<lambda>s. st_loadId s = Some loadId \<and> st_status s \<noteq> ''DISPUTED'')
          (settlements db) = None"
    by (auto simp: createSettlementFromLoad_def split: option.splits)
  from assms l st pay asg fresh have bound: "this = This_controller"
    by (cases this) (auto simp: createSettlementFromLoad_def this_generateSettlementNumber_def)
  from assms l st pay asg fresh bound obtain vs t where
      v: "validatedDeductions new_id ds (Num 0) = Inr (vs, t)"
    by (auto simp: createSettlementFromLoad_def this_generateSettlementNumber_def Let_def
        split: sum.splits)
  from assms l st pay asg fresh bound v have net: "\<not> js_less (js_sub (round64 pay) t) (Num 0)"
    by (auto simp: createSettlementFromLoad_def this_generateSettlementNumber_def Let_def
        split: if_splits)
  define s where "s = \<lparr>st_id = new_id, st_driverId = asg_driverId asg, st_loadId = Some loadId,
      settlementNumber = generateSettlementNumber year db,
      periodStart = date_or (actualPickupTime l) (pickupDate l),
      periodEnd = date_or (actualDeliveryTime l) (deliveryDate l),
      grossAmount = round64 pay, totalDeductions = t, netAmount = js_sub (round64 pay) t,
      st_status = ''PENDING'', st_notes = None\<rparr>"
  have written: "snd (createSettlementFromLoad this year new_id loadId ds db) =
      db\<lparr>settlements := settlements db @ [s], deductions := deductions db @ vs\<rparr>"
    using l st pay asg fresh bound v net
    by (simp add: createSettlementFromLoad_def this_generateSettlementNumber_def Let_def s_def)
  from validatedDeductions_sound[OF v] have t: "t = foldl js_add (Num 0) (map ded_amount vs)"
      and m: "map ded_amount vs = map parsed_amount ds"
      and nn: "\<forall>v \<in> set vs. \<not> invalid_amount (ded_amount v)"
    by auto
  have "grossAmount s = round64 pay" "settlementNumber s = generateSettlementNumber year db"
      "totalDeductions s = foldl js_add (Num 0) (map ded_amount vs)"
      "netAmount s = js_sub (grossAmount s) (totalDeductions s)"
      "\<not> js_less (netAmount s) (Num 0)"
    using t net by (simp_all add: s_def)
  with written l pay m nn bound show ?thesis by blast
qed

lemma createSettlementFromLoad_failure:
  "\<not> is_success (fst (createSettlementFromLoad this year new_id loadId ds db)) \<Longrightarrow>
   snd (createSettlementFromLoad this year new_id loadId ds db) = db"
  by (auto simp: createSettlementFromLoad_def Let_def
      split: option.splits if_splits list.splits sum.splits)

lemma createPeriodSettlement_success:
  assumes "is_success (fst (createPeriodSettlement this year new_id driverId pStart pEnd ds db))"
  shows "this = This_controller
       \<and> (\<exists>s vs drv startDate endDate.
            snd (createPeriodSettlement this year new_id driverId pStart pEnd ds db) =
             db\<lparr>settlements := settlements db @ [s], deductions := deductions db @ vs\<rparr>
          \<and> driverId = Some drv \<and> pStart = Some startDate \<and> pEnd = Some endDate
          \<and> grossAmount s = gross_of (period_loads drv startDate endDate db)
          \<and> settlementNumber s = generateSettlementNumber year db
          \<and> map ded_amount vs = map parsed_amount ds
          \<and> (\<forall>v \<in> set vs. \<not> invalid_amount (ded_amount v))
          \<and> totalDeductions s = foldl js_add (Num 0) (map ded_amount vs)
          \<and> netAmount s = js_sub (grossAmount s) (totalDeductions s)
          \<and> \<not> js_less (netAmount s) (Num 0))"
proof -
  from assms obtain drv startDate endDate where
      req: "driverId = Some drv" "drv \<noteq> []" "pStart = Some startDate" "pEnd = Some endDate"
        "startDate \<noteq> 0" "endDate \<noteq> 0"
    by (auto simp: createPeriodSettlement_def or_else_def split: option.splits if_splits)
  let ?ls = "period_loads drv startDate endDate db"
  from assms req have order: "\<not> startDate \<ge> endDate"
    by (auto simp: createPeriodSettlement_def or_else_def split: if_splits)
  from assms req order have some: "?ls \<noteq> []"
    by (auto simp: createPeriodSettlement_def or_else_def Let_def split: if_splits)
  from assms req order some have
      fresh: "filter (\<lambda>s. (case st_loadId s of None \<Rightarrow> False
                                | Some i \<Rightarrow> i \<in> set (map load_id ?ls))
                             \<and> st_status s \<noteq> ''DISPUTED'') (settlements db) = []"
    by (auto simp: createPeriodSettlement_def or_else_def Let_def split: if_splits)
  from assms req order some fresh obtain vs t where
      v: "validatedDeductions new_id ds (Num 0) = Inr (vs, t)"
    by (auto simp: createPeriodSettlement_def or_else_def Let_def split: sum.splits)
  from assms req order some fresh v have net: "\<not> js_less (js_sub (gross_of ?ls) t) (Num 0)"
    by (auto simp: createPeriodSettlement_def or_else_def Let_def split: if_splits)
  from assms req order some fresh v net have bound: "this = This_controller"
    by (cases this)
       (auto simp: createPeriodSettlement_def or_else_def Let_def
          this_generateSettlementNumber_def)
  define s where "s = \<lparr>st_id = new_id, st_driverId = drv, st_loadId = None,
      settlementNumber = generateSettlementNumber year db,
      periodStart = startDate, periodEnd = endDate, grossAmount = gross_of ?ls,
      totalDeductions = t, netAmount = js_sub (gross_of ?ls) t, st_status = ''PENDING'',
      st_notes = Some (period_notes ?ls)\<rparr>"
  have written: "snd (createPeriodSettlement this year new_id driverId pStart pEnd ds db) =
      db\<lparr>settlements := settlements db @ [s], deductions := deductions db @ vs\<rparr>"
    using req order some fresh v net bound
    by (simp add: createPeriodSettlement_def Let_def or_else_def s_def
        this_generateSettlementNumber_def)
  from validatedDeductions_sound[OF v] have t: "t = foldl js_add (Num 0) (map ded_amount vs)"
      and m: "map ded_amount vs = map parsed_amount ds"
      and nn: "\<forall>v \<in> set vs. \<not> invalid_amount (ded_amount v)"
    by auto
  have "grossAmount s = gross_of ?ls" "settlementNumber s = generateSettlementNumber year db"
      "totalDeductions s = foldl js_add (Num 0) (map ded_amount vs)"
      "netAmount s = js_sub (grossAmount s) (totalDeductions s)"
      "\<not> js_less (netAmount s) (Num 0)"
    using t net by (simp_all add: s_def)
  with written req m nn bound show ?thesis by blast
qed

lemma createPeriodSettlement_failure:
  "\<not> is_success (fst (createPeriodSettlement this year new_id driverId pStart pEnd ds db)) \<Longrightarrow>
   snd (createPeriodSettlement this year new_id driverId pStart pEnd ds db) = db"
  by (auto simp: createPeriodSettlement_def Let_def
      split: option.splits if_splits sum.splits prod.splits)

text \<open>Through the routes no settlement is ever created.\<close>

lemma settlement_routes_never_succeed:
  "\<not> is_success (fst (route_createSettlementFromLoad year new_id loadId ds db))
   \<and> snd (route_createSettlementFromLoad year new_id loadId ds db) = db
   \<and> \<not> is_success (fst (route_createPeriodSettlement year new_id driverId pStart pEnd ds db))
   \<and> snd (route_createPeriodSettlement year new_id driverId pStart pEnd ds db) = db"
proof -
  have a: "\<not> is_success (fst (route_createSettlementFromLoad year new_id loadId ds db))"
    using createSettlementFromLoad_success[of This_undefined year new_id loadId ds db]
    by (auto simp: route_createSettlementFromLoad_def)
  have b: "\<not> is_success (fst (route_createPeriodSettlement year new_id driverId pStart pEnd ds db))"
    using createPeriodSettlement_success[of This_undefined year new_id driverId pStart pEnd ds db]
    by (auto simp: route_createPeriodSettlement_def)
  from a b show ?thesis
    using createSettlementFromLoad_failure[of This_undefined year new_id loadId ds db]
      createPeriodSettlement_failure[of This_undefined year new_id driverId pStart pEnd ds db]
    by (simp add: route_createSettlementFromLoad_def route_createPeriodSettlement_def)
qed

lemma createSettlementFromLoad_unbound:
  assumes "is_success (fst (createSettlementFromLoad This_controller year new_id loadId ds db))"
  shows "createSettlementFromLoad This_undefined year new_id loadId ds db =
           (NextError ''Cannot read properties of undefined (reading '_generateSettlementNumber')'',
            db)"
proof -
  from assms obtain l where l: "find (\<lambda>l. load_id l = loadId) (st_loads db) = Some l"
    by (auto simp: createSettlementFromLoad_def split: option.splits)
  from assms l have st: "load_status l = ''COMPLETED''"
    by (auto simp: createSettlementFromLoad_def split: if_splits)
  from assms l st obtain pay where pay: "driverPay l = Some pay"
    by (auto simp: createSettlementFromLoad_def split: option.splits)
  from assms l st pay obtain asg others where
      asg: "filter (\<lambda>a. asg_loadId a = loadId \<and> accepted_assignment a) (st_assignments db) =
          asg # others"
    by (auto simp: createSettlementFromLoad_def split: list.splits)
  from assms l st pay asg have
      fresh: "find (\<lambda>s. st_loadId s = Some loadId \<and> st_status s \<noteq> ''DISPUTED'')
          (settlements db) = None"
    by (auto simp: createSettlementFromLoad_def split: option.splits)
  from l st pay asg fresh show ?thesis
    by (simp add: createSettlementFromLoad_def this_generateSettlementNumber_def)
qed

lemma createPeriodSettlement_unbound:
  assumes "is_success (fst (createPeriodSettlement This_controller year new_id driverId pStart pEnd ds db))"
  shows "createPeriodSettlement This_undefined year new_id driverId pStart pEnd ds db =
           (NextError ''Cannot read properties of undefined (reading '_generateSettlementNumber')'',
            db)"
proof -
  from assms obtain drv startDate endDate where
      req: "driverId = Some drv" "drv \<noteq> []" "pStart = Some startDate" "pEnd = Some endDate"
        "startDate \<noteq> 0" "endDate \<noteq> 0"
    by (auto simp: createPeriodSettlement_def or_else_def split: option.splits if_splits)
  let ?ls = "period_loads drv startDate endDate db"
  from assms req have order: "\<not> startDate \<ge> endDate"
    by (auto simp: createPeriodSettlement_def or_else_def split: if_splits)
  from assms req order have some: "?ls \<noteq> []"
    by (auto simp: createPeriodSettlement_def or_else_def Let_def split: if_splits)
  from assms req order some have
      fresh: "filter (\<lambda>s. (case st_loadId s of None \<Rightarrow> False
                                | Some i \<Rightarrow> i \<in> set (map load_id ?ls))
                             \<and> st_status s \<noteq> ''DISPUTED'') (settlements db) = []"
    by (auto simp: createPeriodSettlement_def or_else_def Let_def split: if_splits)
  from assms req order some fresh obtain vs t where
      v: "validatedDeductions new_id ds (Num 0) = Inr (vs, t)"
    by (auto simp: createPeriodSettlement_def or_else_def Let_def split: sum.splits)
  from assms req order some fresh v have net: "\<not> js_less (js_sub (gross_of ?ls) t) (Num 0)"
    by (auto simp: createPeriodSettlement_def or_else_def Let_def split: if_splits)
  from req order some fresh v net show ?thesis
    by (simp add: createPeriodSettlement_def or_else_def Let_def
        this_generateSettlementNumber_def)
qed

text \<open>
  Claim C3. The claim does not hold of the code as it is served. Both creation methods
  read \<^verbatim>\<open>this._generateSettlementNumber\<close>, and the router calls them as bare
  functions, so \<^verbatim>\<open>this\<close> is \<^verbatim>\<open>undefined\<close>: every request that would create a
  settlement if the method were called on the controller (a completed load with a
  driver pay, an accepted assignment and no settlement yet; deductions that are valid
  and do not exceed the gross amount) is instead answered with the \<^verbatim>\<open>TypeError\<close> handed
  to \<^verbatim>\<open>next\<close>, and no settlement or deduction row is written. The scenario of a gross
  amount of 1000 with deductions of 100 and 50 gives a net amount of 850 on the
  controller and the error through the route.
\<close>

theorem settlement_routes_throw:
  "(is_success (fst (createSettlementFromLoad This_controller year new_id loadId ds db)) \<longrightarrow>
      route_createSettlementFromLoad year new_id loadId ds db =
        (NextError ''Cannot read properties of undefined (reading '_generateSettlementNumber')'',
         db))
   \<and> (is_success (fst (createPeriodSettlement This_controller year new_id driverId pStart pEnd
          ds db)) \<longrightarrow>
      route_createPeriodSettlement year new_id driverId pStart pEnd ds db =
        (NextError ''Cannot read properties of undefined (reading '_generateSettlementNumber')'',
         db))"
  using createSettlementFromLoad_unbound createPeriodSettlement_unbound
  by (simp add: route_createSettlementFromLoad_def route_createPeriodSettlement_def)

theorem settlement_routes_throw_witness:
  "is_success (fst (createSettlementFromLoad This_controller 2026 ''ST1'' ''L1''
      [sample_deduction ''100'' (Num 100), sample_deduction ''50'' (Num 50)]
      sample_settlement_db))
   \<and> map (\<lambda>s. (settlementNumber s, grossAmount s, totalDeductions s, netAmount s))
        (settlements (snd (createSettlementFromLoad This_controller 2026 ''ST1'' ''L1''
          [sample_deduction ''100'' (Num 100), sample_deduction ''50'' (Num 50)]
          sample_settlement_db))) =
        [(''SETTLE-2026-0001'', Num 1000, Num 150, Num 850)]
   \<and> route_createSettlementFromLoad 2026 ''ST1'' ''L1''
        [sample_deduction ''100'' (Num 100), sample_deduction ''50'' (Num 50)]
        sample_settlement_db =
        (NextError ''Cannot read properties of undefined (reading '_generateSettlementNumber')'',
         sample_settlement_db)
   \<and> is_success (fst (createPeriodSettlement This_controller 2026 ''ST2'' (Some ''D1'')
        (Some 100) (Some 200)
        [sample_deduction ''100'' (Num 100), sample_deduction ''50'' (Num 50)]
        sample_settlement_db))
   \<and> map (\<lambda>s. (settlementNumber s, grossAmount s, totalDeductions s, netAmount s))
        (settlements (snd (createPeriodSettlement This_controller 2026 ''ST2'' (Some ''D1'')
          (Some 100) (Some 200)
          [sample_deduction ''100'' (Num 100), sample_deduction ''50'' (Num 50)]
          sample_settlement_db))) =
        [(''SETTLE-2026-0001'', Num 1000, Num 150, Num 850)]
   \<and> route_createPeriodSettlement 2026 ''ST2'' (Some ''D1'') (Some 100) (Some 200)
        [sample_deduction ''100'' (Num 100), sample_deduction ''50'' (Num 50)]
        sample_settlement_db =
        (NextError ''Cannot read properties of undefined (reading '_generateSettlementNumber')'',
         sample_settlement_db)"
proof -
  let ?ds = "[sample_deduction ''100'' (Num 100), sample_deduction ''50'' (Num 50)]"
  have a: "is_success (fst (createSettlementFromLoad This_controller 2026 ''ST1'' ''L1'' ?ds
      sample_settlement_db))
    \<and> map (\<lambda>s. (settlementNumber s, grossAmount s, totalDeductions s, netAmount s))
        (settlements (snd (createSettlementFromLoad This_controller 2026 ''ST1'' ''L1'' ?ds
          sample_settlement_db))) =
        [(''SETTLE-2026-0001'', Num 1000, Num 150, Num 850)]"
    by code_simp
  have b: "is_success (fst (createPeriodSettlement This_controller 2026 ''ST2'' (Some ''D1'')
        (Some 100) (Some 200) ?ds sample_settlement_db))
    \<and> map (\<lambda>s. (settlementNumber s, grossAmount s, totalDeductions s, netAmount s))
        (settlements (snd (createPeriodSettlement This_controller 2026 ''ST2'' (Some ''D1'')
          (Some 100) (Some 200) ?ds sample_settlement_db))) =
        [(''SETTLE-2026-0001'', Num 1000, Num 150, Num 850)]"
    by code_simp
  from settlement_routes_throw
         [where year = 2026 and new_id = "''ST1''" and loadId = "''L1''" and ds = ?ds
            and db = sample_settlement_db and driverId = "Some ''D1''" and pStart = "Some 100"
            and pEnd = "Some 200"]
       settlement_routes_throw
         [where year = 2026 and new_id = "''ST2''" and loadId = "''L1''" and ds = ?ds
            and db = sample_settlement_db and driverId = "Some ''D1''" and pStart = "Some 100"
            and pEnd = "Some 200"]
       a b
  show ?thesis by blast
qed

text \<open>
  On the controller the amounts are doubles, so the net amount is the rounded
  difference of rounded sums: a driver pay of 0.30 with deductions of 0.1 and 0.2,
  whose exact difference is zero, is refused as exceeding the gross amount, because
  the double sum of 0.1 and 0.2 lies above the double nearest to 0.30.
\<close>

lemma settlement_rounding:
  "createSettlementFromLoad This_controller 2026 ''ST1'' ''L1''
      [sample_deduction ''0.1'' (round64 (1 / 10)), sample_deduction ''0.2'' (round64 (2 / 10))]
      small_pay_db =
     (ApiError 400 ''Deductions exceed gross amount'', small_pay_db)
   \<and> (3 / 10 :: rat) - (1 / 10 + 2 / 10) = 0"
proof -
  have "createSettlementFromLoad This_controller 2026 ''ST1'' ''L1''
      [sample_deduction ''0.1'' (round64 (1 / 10)), sample_deduction ''0.2'' (round64 (2 / 10))]
      small_pay_db =
     (ApiError 400 ''Deductions exceed gross amount'', small_pay_db)"
    by code_simp
  then show ?thesis by simp
qed

section \<open>Invoice amounts\<close>









text \<open>
  The products are rounded: one line item of 100 at a tax rate of 7 gives the tax
  amount 7.000000000000001, the double product of 100 and the double quotient of 7 and
  100, and the total 107. A load without a shipper rate, invoiced without line items,
  gives \<^verbatim>\<open>NaN\<close> for all three amounts.
\<close>

lemma createInvoiceFromLoad_rounding:
  "map (\<lambda>v. (subtotal v, taxAmount v, inv_total v))
     (invoices (snd (createInvoiceFromLoad ''I1'' ''L1'' (Some [sample_item (Num 100)])
        (Some (Num 7)) None sample_invoice_db))) =
     [(Num 100, Num (7881299347898369 / 2 ^ 50), Num 107)]
   \<and> (7881299347898369 / 2 ^ 50 :: rat) \<noteq> 100 * 7 / 100"
  by code_simp

lemma createInvoiceFromLoad_without_rate:
  "map (\<lambda>v. (subtotal v, taxAmount v, inv_total v))
     (invoices (snd (createInvoiceFromLoad ''I1'' ''L1'' None None None
        (sample_invoice_db\<lparr>inv_loads := [(sample_load ''COMPLETED'')\<lparr>shipperRate := None\<rparr>]\<rparr>)))) =
     [(NaN, NaN, NaN)]"
  by code_simp

end
